theory Spec2Isabelle
  imports Main "HOL-Library.Word" "HOL-Library.Signed_Division"
begin

section \<open>bdlt::Datetime: the composition of a date and a time of day\<close>

text \<open>
  The development embeds \<^verbatim>\<open>groups/bdl/bdlt/bdlt_datetime.h\<close>. The classes
  \<^verbatim>\<open>bdlt::Date\<close>, \<^verbatim>\<open>bdlt::Time\<close>, \<^verbatim>\<open>bdlt::DatetimeInterval\<close> and the BDEX streams
  are used by that header but defined elsewhere; they are modelled from the
  specification, each under a comment that says so. C++ \<^verbatim>\<open>int\<close> arguments that
  are only compared are mathematical integers; the 64-bit and 32-bit values on
  which the header does arithmetic are words, so that wrap-around and the
  narrowing casts are those of the machine.
\<close>

subsection \<open>Machine integers\<close>

type_synonym Int64 = "64 word"
type_synonym int32 = "32 word"

text \<open>C++ \<^verbatim>\<open>/\<close> and \<^verbatim>\<open>%\<close> on \<^verbatim>\<open>bsls::Types::Int64\<close>: truncation towards zero.\<close>

definition i64_div :: "Int64 \<Rightarrow> Int64 \<Rightarrow> Int64" where
  "i64_div a b = word_of_int (sint a sdiv sint b)"

definition i64_rem :: "Int64 \<Rightarrow> Int64 \<Rightarrow> Int64" where
  "i64_rem a b = word_of_int (sint a smod sint b)"

text \<open>\<^verbatim>\<open>static_cast<int>\<close> of an \<^verbatim>\<open>Int64\<close>: the low 32 bits.\<close>

definition static_cast_int :: "Int64 \<Rightarrow> int32" where
  "static_cast_int x = word_of_int (sint x)"

text \<open>The private enumerators, from \<^verbatim>\<open>TimeUnitRatio\<close>.\<close>

definition k_MILLISECONDS_PER_DAY :: int where
  "k_MILLISECONDS_PER_DAY = 86400000"

definition k_MILLISECONDS_PER_HOUR :: int where
  "k_MILLISECONDS_PER_HOUR = 3600000"

definition k_MILLISECONDS_PER_MINUTE :: int where
  "k_MILLISECONDS_PER_MINUTE = 60000"

definition k_MILLISECONDS_PER_SECOND :: int where
  "k_MILLISECONDS_PER_SECOND = 1000"

subsection \<open>The collaborator Date\<close>

text \<open>
  Modelled from the spec: \<^verbatim>\<open>bdlt::Date\<close> is not part of the header. The spec
  gives calendar dates of the proleptic Gregorian calendar with years 1 to
  9999, months 1 to 12 and days valid for the month, the default value
  0001-01-01, the addition of a signed day count, the difference of two dates
  as a signed day count and the calendar order. A date is held as its serial
  day number, 1 for 0001-01-01.
\<close>

datatype Date = SerialDate (serialDate: int)

definition isLeapYear :: "int \<Rightarrow> bool" where
  "isLeapYear y = (y mod 4 = 0 \<and> (y mod 100 \<noteq> 0 \<or> y mod 400 = 0))"

definition daysInMonth :: "int \<Rightarrow> int \<Rightarrow> int" where
  "daysInMonth y m =
     (if m = 2 then (if isLeapYear y then 29 else 28)
      else if m = 4 \<or> m = 6 \<or> m = 9 \<or> m = 11 then 30
      else 31)"

definition Date_isValidYearMonthDay :: "int \<Rightarrow> int \<Rightarrow> int \<Rightarrow> bool" where
  "Date_isValidYearMonthDay y m d =
     (1 \<le> y \<and> y \<le> 9999 \<and> 1 \<le> m \<and> m \<le> 12 \<and> 1 \<le> d \<and> d \<le> daysInMonth y m)"

definition Date_isValidYearDay :: "int \<Rightarrow> int \<Rightarrow> bool" where
  "Date_isValidYearDay y n =
     (1 \<le> y \<and> y \<le> 9999 \<and> 1 \<le> n \<and> n \<le> (if isLeapYear y then 366 else 365))"

definition daysBeforeYear :: "int \<Rightarrow> int" where
  "daysBeforeYear y = 365 * (y - 1) + (y - 1) div 4 - (y - 1) div 100 + (y - 1) div 400"

definition daysBeforeMonth :: "int \<Rightarrow> int \<Rightarrow> int" where
  "daysBeforeMonth y m =
     (if m = 1 then 0 else if m = 2 then 31
      else (if isLeapYear y then 1 else 0) +
        (if m = 3 then 59 else if m = 4 then 90 else if m = 5 then 120
         else if m = 6 then 151 else if m = 7 then 181 else if m = 8 then 212
         else if m = 9 then 243 else if m = 10 then 273 else if m = 11 then 304
         else 334))"

definition Date_ymd :: "int \<Rightarrow> int \<Rightarrow> int \<Rightarrow> Date" where
  "Date_ymd y m d = SerialDate (daysBeforeYear y + daysBeforeMonth y m + d)"

definition Date_yd :: "int \<Rightarrow> int \<Rightarrow> Date" where
  "Date_yd y n = SerialDate (daysBeforeYear y + n)"

definition Date_default :: Date where
  "Date_default = SerialDate 1"

definition Date_max_serial :: int where
  "Date_max_serial = 3652059"

definition Date_valid :: "Date \<Rightarrow> bool" where
  "Date_valid d = (1 \<le> serialDate d \<and> serialDate d \<le> Date_max_serial)"

text \<open>\<^verbatim>\<open>Date::operator+=\<close> with a day count, and the checked variant
  \<^verbatim>\<open>addDaysIfValid\<close>, which reports failure (non-zero) when the sum leaves the
  range and leaves the date alone.\<close>

definition Date_add :: "Date \<Rightarrow> int \<Rightarrow> Date" where
  "Date_add d n = SerialDate (serialDate d + n)"

definition Date_addDaysIfValid :: "Date \<Rightarrow> int \<Rightarrow> int \<times> Date" where
  "Date_addDaysIfValid d n =
     (if Date_valid (Date_add d n) then (0, Date_add d n) else (-1, d))"

definition Date_diff :: "Date \<Rightarrow> Date \<Rightarrow> int" where
  "Date_diff a b = serialDate a - serialDate b"

definition Date_less :: "Date \<Rightarrow> Date \<Rightarrow> bool" where
  "Date_less a b = (serialDate a < serialDate b)"

subsection \<open>The collaborator Time\<close>

text \<open>
  Modelled from the spec: \<^verbatim>\<open>bdlt::Time\<close> is not part of the header. The spec
  gives a time of day at millisecond resolution in 00:00:00.000 to
  23:59:59.999 and the one reserved value 24:00:00.000, the default; a validity
  predicate that admits hour 24 only for the reserved value; setters that
  treat the reserved value as 00:00:00.000 before one field is set, hour 24
  forcing the other fields to 0; the addition of a signed millisecond count
  that returns the whole days carried, the time wrapped into the day; the
  difference of two times; and the order. A time is held as its milliseconds
  since midnight.
\<close>

datatype Time = Msec (msec: int)

definition Time_isValid :: "int \<Rightarrow> int \<Rightarrow> int \<Rightarrow> int \<Rightarrow> bool" where
  "Time_isValid h m s ms =
     ((0 \<le> h \<and> h < 24 \<and> 0 \<le> m \<and> m < 60 \<and> 0 \<le> s \<and> s < 60 \<and> 0 \<le> ms \<and> ms < 1000)
      \<or> (h = 24 \<and> m = 0 \<and> s = 0 \<and> ms = 0))"

definition Time_hmsm :: "int \<Rightarrow> int \<Rightarrow> int \<Rightarrow> int \<Rightarrow> Time" where
  "Time_hmsm h m s ms = Msec (h * 3600000 + m * 60000 + s * 1000 + ms)"

definition Time_default :: Time where
  "Time_default = Msec 86400000"

definition Time_valid :: "Time \<Rightarrow> bool" where
  "Time_valid t = (0 \<le> msec t \<and> msec t \<le> 86400000)"

text \<open>The milliseconds since midnight with the reserved value read as midnight.\<close>

definition Time_norm :: "Time \<Rightarrow> int" where
  "Time_norm t = (if t = Time_default then 0 else msec t)"

definition Time_hour :: "Time \<Rightarrow> int" where
  "Time_hour t = msec t div 3600000"

definition Time_minute :: "Time \<Rightarrow> int" where
  "Time_minute t = msec t div 60000 mod 60"

definition Time_second :: "Time \<Rightarrow> int" where
  "Time_second t = msec t div 1000 mod 60"

definition Time_millisecond :: "Time \<Rightarrow> int" where
  "Time_millisecond t = msec t mod 1000"

definition Time_setHour :: "int \<Rightarrow> Time \<Rightarrow> Time" where
  "Time_setHour h t =
     (if h = 24 then Time_default
      else Msec (h * 3600000 + Time_norm t mod 3600000))"

definition Time_setMinute :: "int \<Rightarrow> Time \<Rightarrow> Time" where
  "Time_setMinute m t =
     (let x = Time_norm t in Msec (x - (x div 60000 mod 60) * 60000 + m * 60000))"

definition Time_setSecond :: "int \<Rightarrow> Time \<Rightarrow> Time" where
  "Time_setSecond s t =
     (let x = Time_norm t in Msec (x - (x div 1000 mod 60) * 1000 + s * 1000))"

definition Time_setMillisecond :: "int \<Rightarrow> Time \<Rightarrow> Time" where
  "Time_setMillisecond ms t =
     (let x = Time_norm t in Msec (x - x mod 1000 + ms))"

text \<open>\<^verbatim>\<open>Time::addMilliseconds(int)\<close>: the new time and the days carried.\<close>

definition Time_addMilliseconds :: "int32 \<Rightarrow> Time \<Rightarrow> int32 \<times> Time" where
  "Time_addMilliseconds n t =
     (let total = Time_norm t + sint n
      in (word_of_int (total div 86400000), Msec (total mod 86400000)))"

definition Time_less :: "Time \<Rightarrow> Time \<Rightarrow> bool" where
  "Time_less a b = (msec a < msec b)"

subsection \<open>The class Datetime\<close>

record Datetime =
  d_date :: Date
  d_time :: Time

text \<open>The class data \<^verbatim>\<open>s_defaultDate\<close>, \<^verbatim>\<open>s_defaultTime\<close> and \<^verbatim>\<open>s_zeroTime\<close>.\<close>

definition s_defaultDate :: Date where
  "s_defaultDate = Date_default"

definition s_defaultTime :: Time where
  "s_defaultTime = Time_default"

definition s_zeroTime :: Time where
  "s_zeroTime = Time_hmsm 0 0 0 0"

definition setTimeToZeroIfDefault :: "Datetime \<Rightarrow> Datetime" where
  "setTimeToZeroIfDefault dt =
     (if s_defaultTime = d_time dt \<and> s_defaultDate = d_date dt
      then dt\<lparr>d_time := s_zeroTime\<rparr> else dt)"

definition isValid :: "int \<Rightarrow> int \<Rightarrow> int \<Rightarrow> int \<Rightarrow> int \<Rightarrow> int \<Rightarrow> int \<Rightarrow> bool" where
  "isValid year month day hour minute second millisecond =
     (let partsValid = (Date_isValidYearMonthDay year month day
                        \<and> Time_isValid hour minute second millisecond)
      in if \<not> partsValid then False
         else if 24 = hour \<and> \<not> (1 = year \<and> 1 = month \<and> 1 = day) then False
         else True)"

definition isValid_dt :: "Date \<Rightarrow> Time \<Rightarrow> bool" where
  "isValid_dt date time =
     (if Time_default = time \<and> Date_default \<noteq> date then False else True)"


subsection \<open>The collaborator DatetimeInterval\<close>

text \<open>
  Modelled from the spec: \<^verbatim>\<open>bdlt::DatetimeInterval\<close> is not part of the header.
  The spec gives a signed duration with day, hour, minute, second and
  millisecond components that can be added, negated and ordered. An interval is
  held as its total milliseconds; its day component is the quotient by the
  milliseconds of a day truncated towards zero, the sub-day components are the
  remainder, of the same sign.
\<close>

datatype DatetimeInterval = Interval (totalMilliseconds: int)

definition DatetimeInterval_of :: "int \<Rightarrow> int \<Rightarrow> int \<Rightarrow> int \<Rightarrow> int \<Rightarrow> DatetimeInterval" where
  "DatetimeInterval_of days hours minutes seconds milliseconds =
     Interval (days * 86400000 + hours * 3600000 + minutes * 60000
               + seconds * 1000 + milliseconds)"

definition Interval_days :: "DatetimeInterval \<Rightarrow> int" where
  "Interval_days i = totalMilliseconds i sdiv 86400000"

definition Interval_subday :: "DatetimeInterval \<Rightarrow> int" where
  "Interval_subday i = totalMilliseconds i smod 86400000"

definition Interval_add :: "DatetimeInterval \<Rightarrow> DatetimeInterval \<Rightarrow> DatetimeInterval" where
  "Interval_add a b = Interval (totalMilliseconds a + totalMilliseconds b)"

definition Interval_neg :: "DatetimeInterval \<Rightarrow> DatetimeInterval" where
  "Interval_neg a = Interval (- totalMilliseconds a)"

definition Interval_le :: "DatetimeInterval \<Rightarrow> DatetimeInterval \<Rightarrow> bool" where
  "Interval_le a b = (totalMilliseconds a \<le> totalMilliseconds b)"

text \<open>
  Modelled from the spec: \<^verbatim>\<open>Time::addInterval\<close> and the difference of two
  times. The interval's day component is added directly to the carry and its
  sub-day components go through \<^verbatim>\<open>addMilliseconds\<close>; in a difference an hour of 24
  counts as 0, as the header's contract of \<^verbatim>\<open>operator-\<close> says.
\<close>

definition Time_addInterval :: "DatetimeInterval \<Rightarrow> Time \<Rightarrow> int32 \<times> Time" where
  "Time_addInterval i t =
     (let (carry, t') = Time_addMilliseconds (word_of_int (Interval_subday i)) t
      in (word_of_int (Interval_days i) + carry, t'))"

definition Time_diff :: "Time \<Rightarrow> Time \<Rightarrow> DatetimeInterval" where
  "Time_diff a b = Interval (Time_norm a - Time_norm b)"

subsection \<open>Creators\<close>

text \<open>
  A violated \<^verbatim>\<open>BSLS_ASSERT_SAFE\<close> is the value \<open>None\<close>: the behaviour of the
  call is undefined, and nothing is claimed of it.
\<close>

definition Datetime_default :: Datetime where
  "Datetime_default = \<lparr>d_date = Date_default, d_time = Time_default\<rparr>"

definition Datetime_of_date :: "Date \<Rightarrow> Datetime" where
  "Datetime_of_date date = \<lparr>d_date = date, d_time = Time_hmsm 0 0 0 0\<rparr>"

definition Datetime_of_date_time :: "Date \<Rightarrow> Time \<Rightarrow> Datetime option" where
  "Datetime_of_date_time date time =
     (if isValid_dt date time then Some \<lparr>d_date = date, d_time = time\<rparr> else None)"

definition Datetime_of_fields ::
  "int \<Rightarrow> int \<Rightarrow> int \<Rightarrow> int \<Rightarrow> int \<Rightarrow> int \<Rightarrow> int \<Rightarrow> Datetime option" where
  "Datetime_of_fields year month day hour minute second millisecond =
     (if isValid year month day hour minute second millisecond
      then Some \<lparr>d_date = Date_ymd year month day,
                 d_time = Time_hmsm hour minute second millisecond\<rparr>
      else None)"

subsection \<open>Difference of two values, and the interval operators\<close>

definition Datetime_diff :: "Datetime \<Rightarrow> Datetime \<Rightarrow> DatetimeInterval" where
  "Datetime_diff lhs rhs =
     (let timeInterval1 = DatetimeInterval_of (Date_diff (d_date lhs) (d_date rhs)) 0 0 0 0;
          timeInterval2 = Time_diff (d_time lhs) (d_time rhs)
      in Interval_add timeInterval1 timeInterval2)"

text \<open>The two bounds the assertions compare with.\<close>

definition Datetime_max :: Datetime where
  "Datetime_max = \<lparr>d_date = Date_ymd 9999 12 31, d_time = Time_hmsm 23 59 59 999\<rparr>"

definition Datetime_min :: Datetime where
  "Datetime_min = \<lparr>d_date = Date_ymd 1 1 1, d_time = Time_hmsm 0 0 0 0\<rparr>"

definition plus_assign :: "DatetimeInterval \<Rightarrow> Datetime \<Rightarrow> Datetime option" where
  "plus_assign rhs dt =
     (if Interval_le rhs (Datetime_diff Datetime_max dt)
         \<and> Interval_le (Datetime_diff Datetime_min dt) rhs
      then (let (days, t) = Time_addInterval rhs (d_time dt)
            in Some \<lparr>d_date = Date_add (d_date dt) (sint days), d_time = t\<rparr>)
      else None)"

definition minus_assign :: "DatetimeInterval \<Rightarrow> Datetime \<Rightarrow> Datetime option" where
  "minus_assign rhs dt =
     (if Interval_le (Interval_neg rhs) (Datetime_diff Datetime_max dt)
         \<and> Interval_le (Datetime_diff Datetime_min dt) (Interval_neg rhs)
      then (let (days, t) = Time_addInterval (Interval_neg rhs) (d_time dt)
            in Some \<lparr>d_date = Date_add (d_date dt) (sint days), d_time = t\<rparr>)
      else None)"

definition Datetime_plus :: "Datetime \<Rightarrow> DatetimeInterval \<Rightarrow> Datetime option" where
  "Datetime_plus lhs rhs = plus_assign rhs lhs"

definition Interval_plus_Datetime :: "DatetimeInterval \<Rightarrow> Datetime \<Rightarrow> Datetime option" where
  "Interval_plus_Datetime lhs rhs = plus_assign lhs rhs"

definition Datetime_minus :: "Datetime \<Rightarrow> DatetimeInterval \<Rightarrow> Datetime option" where
  "Datetime_minus lhs rhs = minus_assign rhs lhs"

subsection \<open>Setters\<close>

definition setDatetime ::
  "int \<Rightarrow> int \<Rightarrow> int \<Rightarrow> int \<Rightarrow> int \<Rightarrow> int \<Rightarrow> int \<Rightarrow> Datetime \<Rightarrow> Datetime option" where
  "setDatetime year month day hour minute second millisecond dt =
     (if isValid year month day hour minute second millisecond
      then Some (dt\<lparr>d_date := Date_ymd year month day,
                    d_time := Time_hmsm hour minute second millisecond\<rparr>)
      else None)"

text \<open>\<^verbatim>\<open>k_SUCCESS = 0\<close> and \<^verbatim>\<open>k_FAILURE = -1\<close>; the result is the returned
  \<^verbatim>\<open>int\<close> and the object after the call.\<close>

definition setDatetimeIfValid ::
  "int \<Rightarrow> int \<Rightarrow> int \<Rightarrow> int \<Rightarrow> int \<Rightarrow> int \<Rightarrow> int \<Rightarrow> Datetime \<Rightarrow> (int \<times> Datetime) option" where
  "setDatetimeIfValid year month day hour minute second millisecond dt =
     (if isValid year month day hour minute second millisecond
      then (case setDatetime year month day hour minute second millisecond dt of
              None \<Rightarrow> None
            | Some dt' \<Rightarrow> Some (0, dt'))
      else Some (-1, dt))"

definition setDate :: "Date \<Rightarrow> Datetime \<Rightarrow> Datetime" where
  "setDate date dt = (setTimeToZeroIfDefault dt)\<lparr>d_date := date\<rparr>"

definition setYearDay :: "int \<Rightarrow> int \<Rightarrow> Datetime \<Rightarrow> Datetime option" where
  "setYearDay year dayOfYear dt =
     (if Date_isValidYearDay year dayOfYear
      then Some ((setTimeToZeroIfDefault dt)\<lparr>d_date := Date_yd year dayOfYear\<rparr>)
      else None)"

definition setYearMonthDay :: "int \<Rightarrow> int \<Rightarrow> int \<Rightarrow> Datetime \<Rightarrow> Datetime option" where
  "setYearMonthDay year month day dt =
     (if Date_isValidYearMonthDay year month day
      then Some ((setTimeToZeroIfDefault dt)\<lparr>d_date := Date_ymd year month day\<rparr>)
      else None)"

definition setTime :: "Time \<Rightarrow> Datetime \<Rightarrow> Datetime option" where
  "setTime time dt =
     (if isValid_dt (d_date dt) time then Some (dt\<lparr>d_time := time\<rparr>) else None)"

definition setTime_fields :: "int \<Rightarrow> int \<Rightarrow> int \<Rightarrow> int \<Rightarrow> Datetime \<Rightarrow> Datetime option" where
  "setTime_fields hour minute second millisecond dt =
     (if Time_isValid hour minute second millisecond
         \<and> isValid_dt (d_date dt) (Time_hmsm hour minute second millisecond)
      then Some (dt\<lparr>d_time := Time_hmsm hour minute second millisecond\<rparr>)
      else None)"

definition setHour :: "int \<Rightarrow> Datetime \<Rightarrow> Datetime option" where
  "setHour hour dt =
     (if 0 \<le> hour \<and> hour \<le> 24 \<and> (24 \<noteq> hour \<or> Date_default = d_date dt)
      then Some (dt\<lparr>d_time := Time_setHour hour (d_time dt)\<rparr>)
      else None)"

definition setMinute :: "int \<Rightarrow> Datetime \<Rightarrow> Datetime option" where
  "setMinute minute dt =
     (if 0 \<le> minute \<and> minute \<le> 59
      then Some (dt\<lparr>d_time := Time_setMinute minute (d_time dt)\<rparr>)
      else None)"

definition setSecond :: "int \<Rightarrow> Datetime \<Rightarrow> Datetime option" where
  "setSecond second dt =
     (if 0 \<le> second \<and> second \<le> 59
      then Some (dt\<lparr>d_time := Time_setSecond second (d_time dt)\<rparr>)
      else None)"

definition setMillisecond :: "int \<Rightarrow> Datetime \<Rightarrow> Datetime option" where
  "setMillisecond millisecond dt =
     (if 0 \<le> millisecond \<and> millisecond \<le> 999
      then Some (dt\<lparr>d_time := Time_setMillisecond millisecond (d_time dt)\<rparr>)
      else None)"

subsection \<open>Arithmetic\<close>

definition addDays :: "int32 \<Rightarrow> Datetime \<Rightarrow> Datetime option" where
  "addDays days dt =
     (if fst (Date_addDaysIfValid (d_date dt) (sint days)) = 0
      then (let dt' = setTimeToZeroIfDefault dt
            in Some (dt'\<lparr>d_date := Date_add (d_date dt') (sint days)\<rparr>))
      else None)"

definition addTime :: "Int64 \<Rightarrow> Int64 \<Rightarrow> Int64 \<Rightarrow> Int64 \<Rightarrow> Datetime \<Rightarrow> Datetime option" where
  "addTime hours minutes seconds milliseconds dt =
     (let delta = DatetimeInterval_of 0 (sint hours) (sint minutes) (sint seconds)
                                      (sint milliseconds)
      in if Interval_le delta (Datetime_diff Datetime_max dt)
            \<and> Interval_le (Datetime_diff Datetime_min dt) delta
         then (let (days, t) = Time_addInterval delta (d_time dt)
               in Some \<lparr>d_date = Date_add (d_date dt) (sint days), d_time = t\<rparr>)
         else None)"

text \<open>
  The local constants \<^verbatim>\<open>normMsec\<close> and \<^verbatim>\<open>wholeDays\<close> that each of
  \<^verbatim>\<open>addHours\<close>, \<^verbatim>\<open>addMinutes\<close>, \<^verbatim>\<open>addSeconds\<close> and \<^verbatim>\<open>addMilliseconds\<close>
  computes from its millisecond total.
\<close>

definition normMsec :: "Int64 \<Rightarrow> int32" where
  "normMsec totalMsec =
     static_cast_int (i64_rem totalMsec (word_of_int k_MILLISECONDS_PER_DAY))"

definition wholeDays :: "Int64 \<Rightarrow> int32" where
  "wholeDays totalMsec =
     static_cast_int (i64_div totalMsec (word_of_int k_MILLISECONDS_PER_DAY))"

definition addHours :: "Int64 \<Rightarrow> Datetime \<Rightarrow> Datetime option" where
  "addHours hours dt =
     (let totalMsec = hours * word_of_int k_MILLISECONDS_PER_HOUR;
          (carry, t) = Time_addMilliseconds (normMsec totalMsec) (d_time dt);
          numDays = wholeDays totalMsec + carry
      in if fst (Date_addDaysIfValid (d_date dt) (sint numDays)) = 0
         then Some \<lparr>d_date = Date_add (d_date dt) (sint numDays), d_time = t\<rparr>
         else None)"

definition addMinutes :: "Int64 \<Rightarrow> Datetime \<Rightarrow> Datetime option" where
  "addMinutes minutes dt =
     (let totalMsec = minutes * word_of_int k_MILLISECONDS_PER_MINUTE;
          (carry, t) = Time_addMilliseconds (normMsec totalMsec) (d_time dt);
          numDays = wholeDays totalMsec + carry
      in if fst (Date_addDaysIfValid (d_date dt) (sint numDays)) = 0
         then Some \<lparr>d_date = Date_add (d_date dt) (sint numDays), d_time = t\<rparr>
         else None)"

definition addSeconds :: "Int64 \<Rightarrow> Datetime \<Rightarrow> Datetime option" where
  "addSeconds seconds dt =
     (let totalMsec = seconds * word_of_int k_MILLISECONDS_PER_SECOND;
          (carry, t) = Time_addMilliseconds (normMsec totalMsec) (d_time dt);
          numDays = wholeDays totalMsec + carry
      in if fst (Date_addDaysIfValid (d_date dt) (sint numDays)) = 0
         then Some \<lparr>d_date = Date_add (d_date dt) (sint numDays), d_time = t\<rparr>
         else None)"

definition addMilliseconds :: "Int64 \<Rightarrow> Datetime \<Rightarrow> Datetime option" where
  "addMilliseconds milliseconds dt =
     (let (carry, t) = Time_addMilliseconds (normMsec milliseconds) (d_time dt);
          numDays = wholeDays milliseconds + carry
      in if fst (Date_addDaysIfValid (d_date dt) (sint numDays)) = 0
         then Some \<lparr>d_date = Date_add (d_date dt) (sint numDays), d_time = t\<rparr>
         else None)"

subsection \<open>Comparison\<close>

definition Datetime_eq :: "Datetime \<Rightarrow> Datetime \<Rightarrow> bool" where
  "Datetime_eq lhs rhs = (d_date lhs = d_date rhs \<and> d_time lhs = d_time rhs)"

definition Datetime_ne :: "Datetime \<Rightarrow> Datetime \<Rightarrow> bool" where
  "Datetime_ne lhs rhs = (d_date lhs \<noteq> d_date rhs \<or> d_time lhs \<noteq> d_time rhs)"

definition Datetime_lt :: "Datetime \<Rightarrow> Datetime \<Rightarrow> bool option" where
  "Datetime_lt lhs rhs =
     (if Time_default \<noteq> d_time lhs \<and> Time_default \<noteq> d_time rhs
      then Some (Date_less (d_date lhs) (d_date rhs)
                 \<or> (d_date lhs = d_date rhs \<and> Time_less (d_time lhs) (d_time rhs)))
      else None)"

definition Datetime_le :: "Datetime \<Rightarrow> Datetime \<Rightarrow> bool option" where
  "Datetime_le lhs rhs =
     (if Time_default \<noteq> d_time lhs \<and> Time_default \<noteq> d_time rhs
      then Some (Date_less (d_date lhs) (d_date rhs)
                 \<or> (d_date lhs = d_date rhs
                     \<and> (Time_less (d_time lhs) (d_time rhs) \<or> d_time lhs = d_time rhs)))
      else None)"

definition Datetime_gt :: "Datetime \<Rightarrow> Datetime \<Rightarrow> bool option" where
  "Datetime_gt lhs rhs =
     (if Time_default \<noteq> d_time lhs \<and> Time_default \<noteq> d_time rhs
      then Some (Date_less (d_date rhs) (d_date lhs)
                 \<or> (d_date lhs = d_date rhs \<and> Time_less (d_time rhs) (d_time lhs)))
      else None)"

definition Datetime_ge :: "Datetime \<Rightarrow> Datetime \<Rightarrow> bool option" where
  "Datetime_ge lhs rhs =
     (if Time_default \<noteq> d_time lhs \<and> Time_default \<noteq> d_time rhs
      then Some (Date_less (d_date rhs) (d_date lhs)
                 \<or> (d_date lhs = d_date rhs
                     \<and> (Time_less (d_time rhs) (d_time lhs) \<or> d_time lhs = d_time rhs)))
      else None)"


subsection \<open>BDEX streaming\<close>

text \<open>
  Modelled from the spec: the BDEX streams and the sub-value streams of
  \<^verbatim>\<open>Date\<close> and \<^verbatim>\<open>Time\<close> are not part of the header. The spec fixes only the
  framing: a stream carries a sticky validity flag, each sub-value is written by
  its own version-1 stream, and a reader that meets an unsupported version, the
  end of the input or a value outside its type's range invalidates the stream
  and leaves its target alone. The bit layout is left open, so each sub-value
  is one item of the stream: the serial day of a date, the milliseconds of a
  time.
\<close>

record bdex_stream =
  items :: "int list"
  good :: bool

definition invalidate :: "bdex_stream \<Rightarrow> bdex_stream" where
  "invalidate stream = stream\<lparr>good := False\<rparr>"

definition Date_bdexStreamOut :: "bdex_stream \<Rightarrow> int \<Rightarrow> Date \<Rightarrow> bdex_stream" where
  "Date_bdexStreamOut stream version d =
     (if good stream
      then (if version = 1 then stream\<lparr>items := items stream @ [serialDate d]\<rparr>
            else invalidate stream)
      else stream)"

definition Time_bdexStreamOut :: "bdex_stream \<Rightarrow> int \<Rightarrow> Time \<Rightarrow> bdex_stream" where
  "Time_bdexStreamOut stream version t =
     (if good stream
      then (if version = 1 then stream\<lparr>items := items stream @ [msec t]\<rparr>
            else invalidate stream)
      else stream)"

definition Date_bdexStreamIn :: "bdex_stream \<Rightarrow> int \<Rightarrow> Date \<Rightarrow> bdex_stream \<times> Date" where
  "Date_bdexStreamIn stream version d =
     (if good stream
      then (if version = 1
            then (case items stream of
                    [] \<Rightarrow> (invalidate stream, d)
                  | x # rest \<Rightarrow>
                      if Date_valid (SerialDate x)
                      then (stream\<lparr>items := rest\<rparr>, SerialDate x)
                      else (invalidate (stream\<lparr>items := rest\<rparr>), d))
            else (invalidate stream, d))
      else (stream, d))"

definition Time_bdexStreamIn :: "bdex_stream \<Rightarrow> int \<Rightarrow> Time \<Rightarrow> bdex_stream \<times> Time" where
  "Time_bdexStreamIn stream version t =
     (if good stream
      then (if version = 1
            then (case items stream of
                    [] \<Rightarrow> (invalidate stream, t)
                  | x # rest \<Rightarrow>
                      if Time_valid (Msec x)
                      then (stream\<lparr>items := rest\<rparr>, Msec x)
                      else (invalidate (stream\<lparr>items := rest\<rparr>), t))
            else (invalidate stream, t))
      else (stream, t))"

definition maxSupportedBdexVersion :: "int \<Rightarrow> int" where
  "maxSupportedBdexVersion versionSelector = 1"

definition bdexStreamIn :: "bdex_stream \<Rightarrow> int \<Rightarrow> Datetime \<Rightarrow> bdex_stream \<times> Datetime" where
  "bdexStreamIn stream version dt =
     (if good stream
      then (if version = 1
            then (let (stream1, dateTmp) = Date_bdexStreamIn stream 1 Date_default;
                      (stream2, timeTmp) = Time_bdexStreamIn stream1 1 Time_default
                  in if good stream2
                     then (stream2, dt\<lparr>d_date := dateTmp, d_time := timeTmp\<rparr>)
                     else (invalidate stream2, dt))
            else (invalidate stream, dt))
      else (stream, dt))"

definition bdexStreamOut :: "bdex_stream \<Rightarrow> int \<Rightarrow> Datetime \<Rightarrow> bdex_stream" where
  "bdexStreamOut stream version dt =
     (if good stream
      then (if version = 1
            then Time_bdexStreamOut (Date_bdexStreamOut stream 1 (d_date dt)) 1 (d_time dt)
            else invalidate stream)
      else stream)"

subsection \<open>The invariant of the class\<close>

text \<open>
  The cross-field invariant of the class documentation: either the time part
  is not 24:00:00.000 and both parts are in their ranges, or the value is the
  default one, 0001/01/01_24:00:00.000.
\<close>

definition I1 :: "Datetime \<Rightarrow> bool" where
  "I1 dt =
     ((d_time dt \<noteq> Time_default \<and> Date_valid (d_date dt) \<and> Time_valid (d_time dt))
      \<or> (d_time dt = Time_default \<and> d_date dt = Date_default))"


section \<open>Properties\<close>

subsection \<open>The calendar\<close>

lemma div_step:
  fixes y c :: int
  assumes c: "0 < c"
  shows "y div c = (y - 1) div c + (if y mod c = 0 then 1 else 0)"
proof -
  define q where "q = (y - 1) div c"
  define r where "r = (y - 1) mod c"
  have y: "y = q * c + (r + 1)" and r: "0 \<le> r" "r < c"
    using c by (simp_all add: q_def r_def)
  show ?thesis
  proof (cases "r + 1 = c")
    case True
    then have yc: "y = (q + 1) * c" using y by (simp add: algebra_simps)
    have "y div c = q + 1" by (subst yc) (use c in simp)
    moreover have "y mod c = 0" by (subst yc) simp
    ultimately show ?thesis by (simp add: q_def)
  next
    case False
    then have lt: "r + 1 < c" using r by simp
    have "y div c = q" by (subst y) (use r lt c in simp)
    moreover have "y mod c = r + 1" by (subst y) (use r lt c in simp)
    ultimately show ?thesis using r by (simp add: q_def)
  qed
qed

lemma daysBeforeYear_Suc:
  "daysBeforeYear (y + 1) = daysBeforeYear y + (if isLeapYear y then 366 else 365)"
proof -
  define p4 where "p4 \<longleftrightarrow> y mod 4 = 0"
  define p100 where "p100 \<longleftrightarrow> y mod 100 = 0"
  define p400 where "p400 \<longleftrightarrow> y mod 400 = 0"
  have "y mod 400 mod 100 = y mod 100" "y mod 100 mod 4 = y mod 4"
    by (rule mod_mod_cancel, simp)+
  then have m: "p400 \<Longrightarrow> p100" "p100 \<Longrightarrow> p4"
    unfolding p4_def p100_def p400_def by (simp_all only: mod_0 split: if_splits)
  define a where "a = (y - 1) div 4"
  define b where "b = (y - 1) div 100"
  define c where "c = (y - 1) div 400"
  define a' where "a' = y div 4"
  define b' where "b' = y div 100"
  define c' where "c' = y div 400"
  have e: "a' = a + (if p4 then 1 else 0)"
       "b' = b + (if p100 then 1 else 0)"
       "c' = c + (if p400 then 1 else 0)"
    unfolding a_def b_def c_def a'_def b'_def c'_def p4_def p100_def p400_def
    by (rule div_step, simp)+
  have l: "isLeapYear y \<longleftrightarrow> p4 \<and> (\<not> p100 \<or> p400)"
    unfolding isLeapYear_def p4_def p100_def p400_def ..
  have 1: "daysBeforeYear (y + 1) = 365 * y + a' - b' + c'"
    unfolding daysBeforeYear_def a'_def b'_def c'_def
    by (simp only: add_diff_cancel_right')
  have 2: "daysBeforeYear y = 365 * (y - 1) + a - b + c"
    unfolding daysBeforeYear_def a_def b_def c_def ..
  show ?thesis
    unfolding 1 2 l e using m by (cases p4; cases p100; cases p400; simp)
qed

lemma daysBeforeYear_mono: "y \<le> z \<Longrightarrow> daysBeforeYear y \<le> daysBeforeYear z"
proof (induction z rule: int_ge_induct)
  case base
  show ?case by (rule order_refl)
next
  case (step i)
  have "daysBeforeYear i \<le> daysBeforeYear (i + 1)"
    unfolding daysBeforeYear_Suc by (cases "isLeapYear i") simp_all
  with step.IH show ?case by (rule order_trans)
qed

lemma daysBeforeYear_1: "daysBeforeYear 1 = 0"
  unfolding daysBeforeYear_def by simp

lemma daysBeforeYear_2: "daysBeforeYear 2 = 365"
  unfolding daysBeforeYear_def by simp

lemma daysBeforeYear_10000: "daysBeforeYear 10000 = 3652059"
  unfolding daysBeforeYear_def by simp

lemma daysBeforeYear_ge: "2 \<le> y \<Longrightarrow> 365 \<le> daysBeforeYear y"
  using daysBeforeYear_mono [of 2 y] by (simp only: daysBeforeYear_2)

lemma daysBeforeMonth_nonneg: "0 \<le> daysBeforeMonth y m"
  unfolding daysBeforeMonth_def by (cases "isLeapYear y") simp_all

lemma daysBeforeMonth_ge_31: "m \<noteq> 1 \<Longrightarrow> 31 \<le> daysBeforeMonth y m"
  unfolding daysBeforeMonth_def by (cases "isLeapYear y") simp_all

lemma dayOfYear_bound:
  assumes "Date_isValidYearMonthDay y m d"
  shows "daysBeforeMonth y m + d \<le> (if isLeapYear y then 366 else 365)"
proof -
  have m: "m \<in> {1, 2, 3, 4, 5, 6, 7, 8, 9, 10, 11, 12}"
  proof -
    have "1 \<le> m" "m \<le> 12"
      using assms unfolding Date_isValidYearMonthDay_def by simp_all
    then show ?thesis by (simp only: insert_iff empty_iff) arith
  qed
  have d: "d \<le> daysInMonth y m"
    using assms unfolding Date_isValidYearMonthDay_def by simp
  show ?thesis
    using m d unfolding daysBeforeMonth_def daysInMonth_def
    by (cases "isLeapYear y") auto
qed

lemma year_range:
  assumes "1 \<le> y" "y \<le> 9999"
  shows "0 \<le> daysBeforeYear y"
    and "daysBeforeYear y + (if isLeapYear y then 366 else 365) \<le> Date_max_serial"
proof -
  have "daysBeforeYear 1 \<le> daysBeforeYear y"
    using assms(1) by (rule daysBeforeYear_mono)
  then show "0 \<le> daysBeforeYear y" by (simp only: daysBeforeYear_1)
  have "y + 1 \<le> 10000" using assms(2) by simp
  then have "daysBeforeYear (y + 1) \<le> daysBeforeYear 10000"
    by (rule daysBeforeYear_mono)
  then show "daysBeforeYear y + (if isLeapYear y then 366 else 365) \<le> Date_max_serial"
    by (simp only: daysBeforeYear_Suc daysBeforeYear_10000 Date_max_serial_def)
qed

lemma ymd_default_iff:
  assumes "Date_isValidYearMonthDay y m d"
  shows "Date_ymd y m d = Date_default \<longleftrightarrow> y = 1 \<and> m = 1 \<and> d = 1"
proof -
  have d: "1 \<le> d" and y: "1 \<le> y"
    using assms unfolding Date_isValidYearMonthDay_def by simp_all
  define s where "s = daysBeforeYear y"
  define t where "t = daysBeforeMonth y m"
  have eq: "Date_ymd y m d = Date_default \<longleftrightarrow> s + t + d = 1"
    unfolding Date_ymd_def Date_default_def s_def t_def by simp
  have t0: "0 \<le> t" unfolding t_def by (rule daysBeforeMonth_nonneg)
  show ?thesis
  proof (cases "y = 1")
    case True
    have s0: "s = 0" unfolding s_def True by (rule daysBeforeYear_1)
    show ?thesis
    proof (cases "m = 1")
      case True
      then have "t = 0" unfolding t_def daysBeforeMonth_def by simp
      with s0 eq \<open>y = 1\<close> True show ?thesis by simp
    next
      case False
      then have "31 \<le> t" unfolding t_def by (rule daysBeforeMonth_ge_31)
      with s0 eq d False show ?thesis by simp
    qed
  next
    case False
    with y have "2 \<le> y" by simp
    then have "365 \<le> s" unfolding s_def by (rule daysBeforeYear_ge)
    with t0 d eq False show ?thesis by simp
  qed
qed

lemma ymd_valid:
  assumes "Date_isValidYearMonthDay y m d"
  shows "Date_valid (Date_ymd y m d)"
proof -
  have y: "1 \<le> y" "y \<le> 9999" and d: "1 \<le> d"
    using assms unfolding Date_isValidYearMonthDay_def by simp_all
  define s where "s = daysBeforeYear y"
  define t where "t = daysBeforeMonth y m"
  define l where "l = (if isLeapYear y then 366 else (365::int))"
  have "0 \<le> s" "s + l \<le> Date_max_serial"
    unfolding s_def l_def using y by (rule year_range)+
  moreover have "0 \<le> t" unfolding t_def by (rule daysBeforeMonth_nonneg)
  moreover have "t + d \<le> l" unfolding t_def l_def using assms by (rule dayOfYear_bound)
  moreover have "Date_valid (Date_ymd y m d) \<longleftrightarrow> 1 \<le> s + t + d \<and> s + t + d \<le> Date_max_serial"
    unfolding Date_valid_def Date_ymd_def s_def t_def by simp
  ultimately show ?thesis using d by simp
qed

lemma yd_valid:
  assumes "Date_isValidYearDay y n"
  shows "Date_valid (Date_yd y n)"
proof -
  define l where "l = (if isLeapYear y then 366 else (365::int))"
  define s where "s = daysBeforeYear y"
  have y: "1 \<le> y" "y \<le> 9999" and n: "1 \<le> n" "n \<le> l"
    using assms unfolding Date_isValidYearDay_def l_def by simp_all
  have "0 \<le> s" "s + l \<le> Date_max_serial"
    unfolding s_def l_def using y by (rule year_range)+
  moreover have "Date_valid (Date_yd y n) \<longleftrightarrow> 1 \<le> s + n \<and> s + n \<le> Date_max_serial"
    unfolding Date_valid_def Date_yd_def s_def by simp
  ultimately show ?thesis using n by simp
qed

lemma Date_ymd_1_1_1: "Date_ymd 1 1 1 = Date_default"
  unfolding Date_ymd_def Date_default_def daysBeforeYear_def daysBeforeMonth_def by simp

lemma Date_ymd_9999_12_31: "Date_ymd 9999 12 31 = SerialDate Date_max_serial"
  unfolding Date_ymd_def Date_max_serial_def daysBeforeYear_def daysBeforeMonth_def isLeapYear_def
  by simp


subsection \<open>The validity oracle\<close>

text \<open>
  C7: the seven-field \<^verbatim>\<open>isValid\<close> is a total predicate that holds exactly when
  year, month and day form a valid date, hour, minute, second and millisecond
  form a valid time, and the hour is not 24 unless the date is 0001-01-01, the
  default date.
\<close>

theorem isValid_iff:
  "isValid year month day hour minute second millisecond \<longleftrightarrow>
     Date_isValidYearMonthDay year month day
     \<and> Time_isValid hour minute second millisecond
     \<and> (hour \<noteq> 24 \<or> Date_ymd year month day = Date_default)"
proof (cases "Date_isValidYearMonthDay year month day")
  case True
  from ymd_default_iff [OF True] show ?thesis
    unfolding isValid_def Let_def by auto
next
  case False
  then show ?thesis unfolding isValid_def Let_def by simp
qed

theorem isValid_iff_witness:
  "isValid 1 1 1 24 0 0 0 \<and> \<not> isValid 2013 1 6 24 0 0 0 \<and> isValid 2013 1 6 20 43 0 0"
  using isValid_iff [of 1 1 1 24 0 0 0] isValid_iff [of 2013 1 6 24 0 0 0]
    isValid_iff [of 2013 1 6 20 43 0 0]
  by (simp add: Date_isValidYearMonthDay_def Time_isValid_def daysInMonth_def
      Date_ymd_def Date_default_def daysBeforeYear_def daysBeforeMonth_def)

subsection \<open>The checked setter\<close>

text \<open>
  C8: \<^verbatim>\<open>setDatetimeIfValid\<close> always returns; it returns 0 exactly when the seven
  fields satisfy \<^verbatim>\<open>isValid\<close>, and then the object holds the date and the time
  made of these fields; otherwise it returns a non-zero value and the object is
  what it was.
\<close>

theorem setDatetimeIfValid_spec:
  "\<exists>rc dt'. setDatetimeIfValid year month day hour minute second millisecond dt = Some (rc, dt')
     \<and> (rc = 0 \<longleftrightarrow> isValid year month day hour minute second millisecond)
     \<and> (rc = 0 \<longrightarrow> dt' = \<lparr>d_date = Date_ymd year month day,
                            d_time = Time_hmsm hour minute second millisecond\<rparr>)
     \<and> (rc \<noteq> 0 \<longrightarrow> dt' = dt)"
  unfolding setDatetimeIfValid_def setDatetime_def by simp

theorem setDatetimeIfValid_spec_witness:
  "setDatetimeIfValid 2013 1 6 20 43 0 0 Datetime_default
     = Some (0, \<lparr>d_date = SerialDate 734874, d_time = Msec 74580000\<rparr>)
   \<and> (\<exists>rc. rc \<noteq> 0 \<and>
         setDatetimeIfValid 2013 2 30 0 0 0 0 Datetime_default = Some (rc, Datetime_default))"
proof -
  have v: "isValid 2013 1 6 20 43 0 0" and nv: "\<not> isValid 2013 2 30 0 0 0 0"
    by (simp_all add: isValid_def Date_isValidYearMonthDay_def Time_isValid_def
        daysInMonth_def isLeapYear_def)
  have d: "Date_ymd 2013 1 6 = SerialDate 734874" "Time_hmsm 20 43 0 0 = Msec 74580000"
    by (simp_all add: Date_ymd_def Time_hmsm_def daysBeforeYear_def daysBeforeMonth_def)
  from setDatetimeIfValid_spec [of 2013 1 6 20 43 0 0 Datetime_default] v d
  have 1: "setDatetimeIfValid 2013 1 6 20 43 0 0 Datetime_default
     = Some (0, \<lparr>d_date = SerialDate 734874, d_time = Msec 74580000\<rparr>)"
    by auto
  from setDatetimeIfValid_spec [of 2013 2 30 0 0 0 0 Datetime_default] nv
  have 2: "\<exists>rc. rc \<noteq> 0 \<and>
         setDatetimeIfValid 2013 2 30 0 0 0 0 Datetime_default = Some (rc, Datetime_default)"
    by auto
  from 1 2 show ?thesis ..
qed

subsection \<open>Streaming in\<close>

text \<open>
  C10: when a stream that is valid on entry is no longer valid after the date
  and the time have been read into the temporaries, \<^verbatim>\<open>bdexStreamIn\<close> at version 1
  leaves the object exactly as it was, and the stream invalid: a read that fails
  in the date or in the time never updates the object, partly or wholly.
\<close>

theorem bdexStreamIn_atomic:
  assumes "good stream"
    and "\<not> good (fst (Time_bdexStreamIn (fst (Date_bdexStreamIn stream 1 Date_default)) 1
                        Time_default))"
  shows "snd (bdexStreamIn stream 1 dt) = dt \<and> \<not> good (fst (bdexStreamIn stream 1 dt))"
  using assms unfolding bdexStreamIn_def invalidate_def
  by (simp add: split_beta)

theorem bdexStreamIn_atomic_witness:
  "good \<lparr>items = [734874], good = True\<rparr>
   \<and> snd (bdexStreamIn \<lparr>items = [734874], good = True\<rparr> 1 (Datetime_of_date (SerialDate 5)))
       = Datetime_of_date (SerialDate 5)
   \<and> \<not> good (fst (bdexStreamIn \<lparr>items = [734874], good = True\<rparr> 1
                     (Datetime_of_date (SerialDate 5))))"
proof -
  have g: "good \<lparr>items = [734874], good = True\<rparr>" by simp
  have n: "\<not> good (fst (Time_bdexStreamIn
      (fst (Date_bdexStreamIn \<lparr>items = [734874], good = True\<rparr> 1 Date_default)) 1 Time_default))"
    by (simp add: Time_bdexStreamIn_def Date_bdexStreamIn_def Date_valid_def Date_max_serial_def
        invalidate_def)
  from bdexStreamIn_atomic [OF g n, of "Datetime_of_date (SerialDate 5)"] g
  show ?thesis by simp
qed


subsection \<open>Streaming out and back in\<close>

lemma Date_valid_default: "Date_valid Date_default"
  by (simp add: Date_valid_def Date_default_def Date_max_serial_def)

lemma Time_valid_default: "Time_valid Time_default"
  by (simp add: Time_valid_def Time_default_def)

lemma I1_parts_valid: "I1 dt \<Longrightarrow> Date_valid (d_date dt) \<and> Time_valid (d_time dt)"
  unfolding I1_def using Date_valid_default Time_valid_default by auto

text \<open>
  C9: a value that satisfies the invariant, the default value included, written
  by \<^verbatim>\<open>bdexStreamOut\<close> at version 1 and read back by \<^verbatim>\<open>bdexStreamIn\<close> at version 1
  is reproduced exactly, whatever the target held before. What is written is
  the date's sub-stream followed at once by the time's, and nothing else: no
  version is written, and none is read.
\<close>

theorem bdex_roundtrip:
  assumes "I1 dt" and "good s"
  shows "bdexStreamOut s 1 dt
           = s\<lparr>items := items s @ [serialDate (d_date dt), msec (d_time dt)]\<rparr>
         \<and> bdexStreamIn (s\<lparr>items := [serialDate (d_date dt), msec (d_time dt)] @ rest\<rparr>) 1 dt0
           = (s\<lparr>items := rest\<rparr>, dt)
         \<and> bdexStreamIn (bdexStreamOut \<lparr>items = [], good = True\<rparr> 1 dt) 1 dt0
           = (\<lparr>items = [], good = True\<rparr>, dt)"
proof -
  from I1_parts_valid [OF assms(1)]
  have v: "Date_valid (SerialDate (serialDate (d_date dt)))"
          "Time_valid (Msec (msec (d_time dt)))" by simp_all
  have out: "bdexStreamOut s' 1 dt
           = s'\<lparr>items := items s' @ [serialDate (d_date dt), msec (d_time dt)]\<rparr>"
    if "good s'" for s' :: bdex_stream
    using that unfolding bdexStreamOut_def Date_bdexStreamOut_def Time_bdexStreamOut_def
    by simp
  have inp: "bdexStreamIn (s'\<lparr>items := [serialDate (d_date dt), msec (d_time dt)] @ rest'\<rparr>) 1 dt0
           = (s'\<lparr>items := rest'\<rparr>, dt)"
    if "good s'" for s' :: bdex_stream and rest'
    using that v unfolding bdexStreamIn_def Date_bdexStreamIn_def Time_bdexStreamIn_def
    by simp
  have e: "(\<lparr>items = [], good = True\<rparr> :: bdex_stream)\<lparr>items := xs\<rparr> = \<lparr>items = xs, good = True\<rparr>" for xs
    by simp
  from out [of "\<lparr>items = [], good = True\<rparr>"] inp [of "\<lparr>items = [], good = True\<rparr>" "[]"]
  have "bdexStreamIn (bdexStreamOut \<lparr>items = [], good = True\<rparr> 1 dt) 1 dt0
           = (\<lparr>items = [], good = True\<rparr>, dt)" by simp
  with out [OF assms(2)] inp [OF assms(2), of rest] show ?thesis by simp
qed

theorem bdex_roundtrip_witness:
  "bdexStreamIn (bdexStreamOut \<lparr>items = [], good = True\<rparr> 1 Datetime_default) 1
      (Datetime_of_date (SerialDate 5))
     = (\<lparr>items = [], good = True\<rparr>, Datetime_default)
   \<and> bdexStreamOut \<lparr>items = [], good = True\<rparr> 1 Datetime_default
     = \<lparr>items = [1, 86400000], good = True\<rparr>"
proof -
  have i: "I1 Datetime_default" by (simp add: I1_def Datetime_default_def)
  have g: "good \<lparr>items = [], good = True\<rparr>" by simp
  from bdex_roundtrip [OF i g, of "[]" "Datetime_of_date (SerialDate 5)"]
  show ?thesis by (simp add: Datetime_default_def Date_default_def Time_default_def)
qed

subsection \<open>The order\<close>

text \<open>
  C6: on values whose time part is not 24:00:00.000, \<^verbatim>\<open>operator<\<close> is the
  lexicographic order on date and time, exactly one of \<open>a < b\<close>, \<open>a == b\<close> and
  \<open>a > b\<close> holds, and \<open>a < b\<close> with \<open>b < c\<close> gives \<open>a < c\<close>.
\<close>

theorem Datetime_order:
  assumes "d_time a \<noteq> Time_default" and "d_time b \<noteq> Time_default"
    and "d_time c \<noteq> Time_default"
  shows "Datetime_lt a b = Some (Date_less (d_date a) (d_date b)
            \<or> (d_date a = d_date b \<and> Time_less (d_time a) (d_time b)))
    \<and> ((Datetime_lt a b = Some True \<and> \<not> Datetime_eq a b \<and> Datetime_gt a b = Some False)
       \<or> (Datetime_lt a b = Some False \<and> Datetime_eq a b \<and> Datetime_gt a b = Some False)
       \<or> (Datetime_lt a b = Some False \<and> \<not> Datetime_eq a b \<and> Datetime_gt a b = Some True))
    \<and> (Datetime_lt a b = Some True \<and> Datetime_lt b c = Some True
         \<longrightarrow> Datetime_lt a c = Some True)"
proof -
  obtain da ta where a: "d_date a = SerialDate da" "d_time a = Msec ta"
    by (cases "d_date a"; cases "d_time a") simp
  obtain db tb where b: "d_date b = SerialDate db" "d_time b = Msec tb"
    by (cases "d_date b"; cases "d_time b") simp
  obtain dc tc where c: "d_date c = SerialDate dc" "d_time c = Msec tc"
    by (cases "d_date c"; cases "d_time c") simp
  show ?thesis
    using assms unfolding Datetime_lt_def Datetime_gt_def Datetime_eq_def Date_less_def
      Time_less_def a b c
    by auto
qed

theorem Datetime_order_witness:
  "Datetime_lt \<lparr>d_date = SerialDate 10, d_time = Msec 5\<rparr>
               \<lparr>d_date = SerialDate 11, d_time = Msec 0\<rparr> = Some True
   \<and> Datetime_gt \<lparr>d_date = SerialDate 10, d_time = Msec 5\<rparr>
                 \<lparr>d_date = SerialDate 10, d_time = Msec 7\<rparr> = Some False"
proof -
  let ?a = "\<lparr>d_date = SerialDate 10, d_time = Msec 5\<rparr>"
  let ?b = "\<lparr>d_date = SerialDate 10, d_time = Msec 7\<rparr>"
  let ?c = "\<lparr>d_date = SerialDate 11, d_time = Msec 0\<rparr>"
  have n: "d_time ?a \<noteq> Time_default" "d_time ?b \<noteq> Time_default" "d_time ?c \<noteq> Time_default"
    by (simp_all add: Time_default_def)
  have l: "Datetime_lt ?a ?b = Some True" "Datetime_lt ?b ?c = Some True"
    by (simp_all add: Datetime_lt_def Time_default_def Date_less_def Time_less_def)
  from Datetime_order [OF n] l show ?thesis by auto
qed


subsection \<open>Truncating division and the carry\<close>

lemma sint_of_int_64:
  "- 9223372036854775808 \<le> k \<Longrightarrow> k < 9223372036854775808 \<Longrightarrow> sint (word_of_int k :: 64 word) = k"
  by (simp add: sint_sbintrunc' signed_take_bit_int_eq_self)

lemma sint_of_int_32:
  "- 2147483648 \<le> k \<Longrightarrow> k < 2147483648 \<Longrightarrow> sint (word_of_int k :: 32 word) = k"
  by (simp add: sint_sbintrunc' signed_take_bit_int_eq_self)

lemma sint_64_range: "- 9223372036854775808 \<le> sint (x :: 64 word) \<and> sint x < 9223372036854775808"
  using sint_ge [of x] sint_lt [of x] by simp

lemma sint_day64: "sint (word_of_int k_MILLISECONDS_PER_DAY :: 64 word) = 86400000"
  by (simp add: k_MILLISECONDS_PER_DAY_def)

lemma smod_day_bounds:
  fixes a :: int
  shows "- 86400000 < a smod 86400000" and "a smod 86400000 < 86400000"
    and "0 \<le> a \<Longrightarrow> 0 \<le> a smod 86400000" and "a \<le> 0 \<Longrightarrow> a smod 86400000 \<le> 0"
proof -
  define m where "m = \<bar>a\<bar> mod 86400000"
  have m: "0 \<le> m" "m < 86400000" unfolding m_def by simp_all
  have e: "a smod 86400000 = sgn a * m"
    unfolding m_def by (simp add: signed_modulo_int_def)
  show "- 86400000 < a smod 86400000" "a smod 86400000 < 86400000"
    "0 \<le> a \<Longrightarrow> 0 \<le> a smod 86400000" "a \<le> 0 \<Longrightarrow> a smod 86400000 \<le> 0"
    unfolding e using m by (cases "a < 0"; cases "a = 0"; simp)+
qed

lemma sdiv_day_bounds:
  fixes a :: int
  shows "- \<bar>a\<bar> \<le> (a sdiv 86400000) * 86400000" and "(a sdiv 86400000) * 86400000 \<le> \<bar>a\<bar>"
proof -
  define d where "d = \<bar>a\<bar> div 86400000"
  have "d * 86400000 \<le> \<bar>a\<bar>" unfolding d_def by simp
  moreover have "0 \<le> d" unfolding d_def by simp
  moreover have e: "a sdiv 86400000 = sgn a * d"
    unfolding d_def by (simp add: signed_divide_int_def)
  ultimately show "- \<bar>a\<bar> \<le> (a sdiv 86400000) * 86400000"
    "(a sdiv 86400000) * 86400000 \<le> \<bar>a\<bar>"
    unfolding e by (cases "a < 0"; cases "a = 0"; simp)+
qed

lemma sint_i64_rem_day:
  "sint (i64_rem x (word_of_int k_MILLISECONDS_PER_DAY)) = sint x smod 86400000"
proof -
  define r where "r = sint x smod 86400000"
  have "- 86400000 < r" "r < 86400000" unfolding r_def by (rule smod_day_bounds)+
  then have "sint (word_of_int r :: 64 word) = r" by (intro sint_of_int_64) simp_all
  then show ?thesis unfolding i64_rem_def sint_day64 r_def .
qed

lemma sint_i64_div_day:
  "sint (i64_div x (word_of_int k_MILLISECONDS_PER_DAY)) = sint x sdiv 86400000"
proof -
  define q where "q = sint x sdiv 86400000"
  have "- \<bar>sint x\<bar> \<le> q * 86400000" "q * 86400000 \<le> \<bar>sint x\<bar>"
    unfolding q_def by (rule sdiv_day_bounds)+
  with sint_64_range [of x] have "- 9223372036854775808 \<le> q" "q < 9223372036854775808"
    by linarith+
  then have "sint (word_of_int q :: 64 word) = q" by (rule sint_of_int_64)
  then show ?thesis unfolding i64_div_def sint_day64 q_def .
qed

lemma sint_normMsec: "sint (normMsec x) = sint x smod 86400000"
proof -
  define r where "r = sint x smod 86400000"
  have "- 86400000 < r" "r < 86400000" unfolding r_def by (rule smod_day_bounds)+
  then have "sint (word_of_int r :: 32 word) = r" by (intro sint_of_int_32) simp_all
  then show ?thesis unfolding normMsec_def static_cast_int_def sint_i64_rem_day r_def .
qed

lemma wholeDays_eq: "wholeDays x = word_of_int (sint x sdiv 86400000)"
  unfolding wholeDays_def static_cast_int_def sint_i64_div_day ..


lemma Time_norm_range:
  assumes "Time_valid t"
  shows "0 \<le> Time_norm t" and "Time_norm t < 86400000"
proof -
  obtain m where t: "t = Msec m" by (cases t)
  from assms show "0 \<le> Time_norm t" "Time_norm t < 86400000"
    unfolding t Time_norm_def Time_valid_def Time_default_def by auto
qed

lemma Time_norm_eq: "t \<noteq> Time_default \<Longrightarrow> Time_norm t = msec t"
  unfolding Time_norm_def by simp

lemma Time_addMilliseconds_normMsec:
  "Time_addMilliseconds (normMsec x) t =
     (word_of_int ((Time_norm t + sint x smod 86400000) div 86400000),
      Msec ((Time_norm t + sint x smod 86400000) mod 86400000))"
  unfolding Time_addMilliseconds_def sint_normMsec Let_def ..

lemma floor_of_truncated:
  fixes n a :: int
  shows "(n + a smod 86400000) mod 86400000 = (n + a) mod 86400000"
    and "a sdiv 86400000 + (n + a smod 86400000) div 86400000 = (n + a) div 86400000"
proof -
  define r where "r = a smod 86400000"
  define q where "q = a sdiv 86400000"
  have "q * 86400000 + r = a" unfolding q_def r_def by (rule sdiv_mult_smod_eq)
  then have e: "n + a = (n + r) + q * 86400000" by simp
  have "((n + r) + q * 86400000) mod 86400000 = (n + r) mod 86400000"
    by (rule mod_mult_self1)
  moreover have "((n + r) + q * 86400000) div 86400000 = q + (n + r) div 86400000"
    by (rule div_mult_self1) simp
  ultimately have "(n + a) mod 86400000 = (n + r) mod 86400000"
    and "(n + a) div 86400000 = q + (n + r) div 86400000"
    unfolding e by blast+
  then show "(n + a smod 86400000) mod 86400000 = (n + a) mod 86400000"
    and "a sdiv 86400000 + (n + a smod 86400000) div 86400000 = (n + a) div 86400000"
    unfolding r_def q_def by simp_all
qed

lemma adder_time:
  "snd (Time_addMilliseconds (normMsec x) t) = Msec ((Time_norm t + sint x) mod 86400000)"
  unfolding Time_addMilliseconds_normMsec snd_conv floor_of_truncated ..

lemma adder_days_word:
  "wholeDays x + fst (Time_addMilliseconds (normMsec x) t)
     = word_of_int ((Time_norm t + sint x) div 86400000)"
proof -
  have "wholeDays x + fst (Time_addMilliseconds (normMsec x) t)
     = word_of_int (sint x sdiv 86400000 + (Time_norm t + sint x smod 86400000) div 86400000)"
    unfolding Time_addMilliseconds_normMsec fst_conv wholeDays_eq by simp
  then show ?thesis unfolding floor_of_truncated .
qed

lemma Time_addInterval_floor:
  "Time_addInterval i t =
     (word_of_int ((Time_norm t + totalMilliseconds i) div 86400000),
      Msec ((Time_norm t + totalMilliseconds i) mod 86400000))"
proof -
  define a where "a = totalMilliseconds i"
  define r where "r = a smod 86400000"
  have "- 86400000 < r" "r < 86400000" unfolding r_def by (rule smod_day_bounds)+
  then have s: "sint (word_of_int r :: 32 word) = r" by (intro sint_of_int_32) simp_all
  have "Time_addInterval i t =
     (word_of_int (a sdiv 86400000) + word_of_int ((Time_norm t + r) div 86400000),
      Msec ((Time_norm t + r) mod 86400000))"
    unfolding Time_addInterval_def Time_addMilliseconds_def Interval_subday_def Interval_days_def
      Let_def split_conv a_def [symmetric] r_def [symmetric] s ..
  also have "word_of_int (a sdiv 86400000) + word_of_int ((Time_norm t + r) div 86400000)
      = (word_of_int (a sdiv 86400000 + (Time_norm t + r) div 86400000) :: 32 word)"
    by simp
  finally show ?thesis unfolding r_def floor_of_truncated a_def .
qed

lemma adder_floor:
  "(let (carry, t) = Time_addMilliseconds (normMsec x) tm;
        numDays = wholeDays x + carry
    in if fst (Date_addDaysIfValid d (sint numDays)) = 0
       then Some \<lparr>d_date = Date_add d (sint numDays), d_time = t\<rparr>
       else None)
   = (let numDays = (word_of_int ((Time_norm tm + sint x) div 86400000) :: int32)
      in if Date_valid (Date_add d (sint numDays))
         then Some \<lparr>d_date = Date_add d (sint numDays),
                    d_time = Msec ((Time_norm tm + sint x) mod 86400000)\<rparr>
         else None)"
proof -
  obtain carry t where c: "Time_addMilliseconds (normMsec x) tm = (carry, t)"
    by (cases "Time_addMilliseconds (normMsec x) tm")
  from adder_time [of x tm] adder_days_word [of x tm]
  have t: "t = Msec ((Time_norm tm + sint x) mod 86400000)"
    and n: "wholeDays x + carry = word_of_int ((Time_norm tm + sint x) div 86400000)"
    unfolding c by simp_all
  show ?thesis
    unfolding c split_conv Let_def n t Date_addDaysIfValid_def by simp
qed


lemma Datetime_diff_max:
  "Datetime_diff Datetime_max dt =
     Interval ((Date_max_serial - serialDate (d_date dt)) * 86400000
               + (86399999 - Time_norm (d_time dt)))"
proof -
  have "Time_norm (Time_hmsm 23 59 59 999) = 86399999"
    by (simp add: Time_norm_def Time_hmsm_def Time_default_def)
  then show ?thesis
    unfolding Datetime_diff_def Datetime_max_def Date_ymd_9999_12_31 Let_def Time_diff_def
      DatetimeInterval_of_def Interval_add_def Date_diff_def
    by simp
qed

lemma Datetime_diff_min:
  "Datetime_diff Datetime_min dt =
     Interval ((1 - serialDate (d_date dt)) * 86400000 + (0 - Time_norm (d_time dt)))"
proof -
  have "Time_norm (Time_hmsm 0 0 0 0) = 0"
    by (simp add: Time_norm_def Time_hmsm_def Time_default_def)
  then show ?thesis
    unfolding Datetime_diff_def Datetime_min_def Date_ymd_1_1_1 Let_def Time_diff_def
      DatetimeInterval_of_def Interval_add_def Date_diff_def Date_default_def
    by simp
qed

lemma interval_range:
  assumes inv: "I1 dt"
    and hi: "Interval_le i (Datetime_diff Datetime_max dt)"
    and lo: "Interval_le (Datetime_diff Datetime_min dt) i"
  shows "- 2147483648 \<le> (Time_norm (d_time dt) + totalMilliseconds i) div 86400000"
    and "(Time_norm (d_time dt) + totalMilliseconds i) div 86400000 < 2147483648"
    and "Date_valid (Date_add (d_date dt)
           ((Time_norm (d_time dt) + totalMilliseconds i) div 86400000))"
    and "- 4611686018427387904 < totalMilliseconds i"
    and "totalMilliseconds i < 4611686018427387904"
proof -
  define s where "s = serialDate (d_date dt)"
  define n where "n = Time_norm (d_time dt)"
  define a where "a = totalMilliseconds i"
  define k where "k = (n + a) div 86400000"
  define m where "m = (n + a) mod 86400000"
  from I1_parts_valid [OF inv] have s: "1 \<le> s" "s \<le> 3652059"
    and n: "0 \<le> n" "n < 86400000"
    unfolding s_def n_def Date_valid_def Date_max_serial_def
    using Time_norm_range [of "d_time dt"] by simp_all
  from hi have h: "a \<le> (3652059 - s) * 86400000 + (86399999 - n)"
    unfolding Datetime_diff_max Interval_le_def a_def s_def n_def Date_max_serial_def by simp
  from lo have l: "(1 - s) * 86400000 + (0 - n) \<le> a"
    unfolding Datetime_diff_min Interval_le_def a_def s_def n_def by simp
  have m: "0 \<le> m" "m < 86400000" unfolding m_def by simp_all
  have e: "n + a = k * 86400000 + m" unfolding k_def m_def by simp
  have "1 - s \<le> k" using l m e by (simp add: algebra_simps)
  moreover have "k \<le> 3652059 - s" using h m e by (simp add: algebra_simps)
  ultimately have k: "1 - s \<le> k" "k \<le> 3652059 - s" .
  show "- 2147483648 \<le> (Time_norm (d_time dt) + totalMilliseconds i) div 86400000"
    and "(Time_norm (d_time dt) + totalMilliseconds i) div 86400000 < 2147483648"
    using k s unfolding k_def n_def a_def by (linarith, linarith)
  show "Date_valid (Date_add (d_date dt)
           ((Time_norm (d_time dt) + totalMilliseconds i) div 86400000))"
    using k unfolding Date_valid_def Date_add_def Date_max_serial_def
      k_def n_def a_def s_def by simp
  show "- 4611686018427387904 < totalMilliseconds i"
    and "totalMilliseconds i < 4611686018427387904"
    using h l s n unfolding a_def by (simp_all add: algebra_simps)
qed


lemma plus_assign_floor:
  "plus_assign i dt =
     (if Interval_le i (Datetime_diff Datetime_max dt)
         \<and> Interval_le (Datetime_diff Datetime_min dt) i
      then Some \<lparr>d_date = Date_add (d_date dt)
                   (sint (word_of_int ((Time_norm (d_time dt) + totalMilliseconds i)
                                        div 86400000) :: int32)),
                 d_time = Msec ((Time_norm (d_time dt) + totalMilliseconds i) mod 86400000)\<rparr>
      else None)"
  unfolding plus_assign_def Time_addInterval_floor split_conv Let_def ..

lemma addTime_plus_assign:
  "addTime hours minutes seconds milliseconds dt =
     plus_assign (DatetimeInterval_of 0 (sint hours) (sint minutes) (sint seconds)
                                      (sint milliseconds)) dt"
  unfolding addTime_def plus_assign_def Let_def ..

lemma plus_assign_asserts:
  assumes "plus_assign i dt \<noteq> None"
  shows "Interval_le i (Datetime_diff Datetime_max dt)"
    and "Interval_le (Datetime_diff Datetime_min dt) i"
  using assms unfolding plus_assign_def by (simp_all split: if_splits)

lemma scalar_adder_eq_plus_assign:
  assumes inv: "I1 dt" and x: "sint x = totalMilliseconds i"
    and ok: "plus_assign i dt \<noteq> None"
  shows "(let (carry, t) = Time_addMilliseconds (normMsec x) (d_time dt);
              numDays = wholeDays x + carry
          in if fst (Date_addDaysIfValid (d_date dt) (sint numDays)) = 0
             then Some \<lparr>d_date = Date_add (d_date dt) (sint numDays), d_time = t\<rparr>
             else None)
         = plus_assign i dt" (is "?lhs = _")
proof -
  define k where "k = (Time_norm (d_time dt) + totalMilliseconds i) div 86400000"
  note a = plus_assign_asserts [OF ok]
  from interval_range(1,2) [OF inv a] have "sint (word_of_int k :: int32) = k"
    unfolding k_def by (rule sint_of_int_32)
  moreover from interval_range(3) [OF inv a] have "Date_valid (Date_add (d_date dt) k)"
    unfolding k_def .
  ultimately have "(let numDays = (word_of_int ((Time_norm (d_time dt) + sint x) div 86400000) :: int32)
      in if Date_valid (Date_add (d_date dt) (sint numDays))
         then Some \<lparr>d_date = Date_add (d_date dt) (sint numDays),
                    d_time = Msec ((Time_norm (d_time dt) + sint x) mod 86400000)\<rparr>
         else None) = plus_assign i dt"
    unfolding plus_assign_floor x k_def [symmetric] Let_def using a by simp
  with adder_floor [of x "d_time dt" "d_date dt"] show ?thesis by (rule trans)
qed

lemma sint_mult_const:
  fixes h :: Int64
  assumes "- 4611686018427387904 < sint h * c" and "sint h * c < 4611686018427387904"
    and "- 4611686018427387904 < c" and "c < 4611686018427387904"
  shows "sint (h * word_of_int c) = sint h * c"
proof -
  have c: "sint (word_of_int c :: Int64) = c"
    using assms(3,4) by (intro sint_of_int_64) simp_all
  have "sint (h * word_of_int c) = signed_take_bit 63 (sint h * c)"
    unfolding sint_word_ariths c by simp
  also have "\<dots> = sint h * c"
    using assms(1,2) by (intro signed_take_bit_int_eq_self) simp_all
  finally show ?thesis .
qed


lemma setTimeToZeroIfDefault_norm:
  assumes "I1 dt"
  shows "setTimeToZeroIfDefault dt
           = \<lparr>d_date = d_date dt, d_time = Msec (Time_norm (d_time dt))\<rparr>"
proof (cases "d_time dt = Time_default")
  case True
  with assms have "d_date dt = Date_default" unfolding I1_def by simp
  with True show ?thesis
    unfolding setTimeToZeroIfDefault_def s_defaultTime_def s_defaultDate_def s_zeroTime_def
      Time_norm_def Time_hmsm_def by simp
next
  case False
  then show ?thesis
    unfolding setTimeToZeroIfDefault_def s_defaultTime_def Time_norm_def by auto
qed

lemma addDays_floor:
  assumes "I1 dt"
  shows "addDays days dt =
     (if Date_valid (Date_add (d_date dt) (sint days))
      then Some \<lparr>d_date = Date_add (d_date dt) (sint days),
                 d_time = Msec (Time_norm (d_time dt))\<rparr>
      else None)"
  unfolding addDays_def Date_addDaysIfValid_def Let_def setTimeToZeroIfDefault_norm [OF assms]
  by simp

lemma adder_whole_days:
  assumes inv: "I1 dt" and x: "sint x = j * 86400000"
    and j: "- 2147483648 \<le> j" "j < 2147483648"
  shows "(let (carry, t) = Time_addMilliseconds (normMsec x) (d_time dt);
              numDays = wholeDays x + carry
          in if fst (Date_addDaysIfValid (d_date dt) (sint numDays)) = 0
             then Some \<lparr>d_date = Date_add (d_date dt) (sint numDays), d_time = t\<rparr>
             else None)
         = (if Date_valid (Date_add (d_date dt) j)
            then Some \<lparr>d_date = Date_add (d_date dt) j,
                       d_time = Msec (Time_norm (d_time dt))\<rparr>
            else None)"
proof -
  define n where "n = Time_norm (d_time dt)"
  from I1_parts_valid [OF inv] have n: "0 \<le> n" "n < 86400000"
    unfolding n_def using Time_norm_range [of "d_time dt"] by simp_all
  have "(n + j * 86400000) div 86400000 = j + n div 86400000"
    by (rule div_mult_self1) simp
  moreover have "(n + j * 86400000) mod 86400000 = n mod 86400000"
    by (rule mod_mult_self1)
  moreover have "n div 86400000 = 0" "n mod 86400000 = n" using n by simp_all
  ultimately have dm: "(n + j * 86400000) div 86400000 = j"
    "(n + j * 86400000) mod 86400000 = n" by simp_all
  have s: "sint (word_of_int j :: int32) = j" using j by (rule sint_of_int_32)
  have "(let numDays = (word_of_int ((Time_norm (d_time dt) + sint x) div 86400000) :: int32)
      in if Date_valid (Date_add (d_date dt) (sint numDays))
         then Some \<lparr>d_date = Date_add (d_date dt) (sint numDays),
                    d_time = Msec ((Time_norm (d_time dt) + sint x) mod 86400000)\<rparr>
         else None)
         = (if Date_valid (Date_add (d_date dt) j)
            then Some \<lparr>d_date = Date_add (d_date dt) j,
                       d_time = Msec (Time_norm (d_time dt))\<rparr>
            else None)"
    unfolding x n_def [symmetric] dm Let_def s ..
  with adder_floor [of x "d_time dt" "d_date dt"] show ?thesis by (rule trans)
qed

lemma addHours_24_eq_addDays_1:
  assumes "I1 dt"
  shows "addHours 24 dt = addDays 1 dt"
proof -
  have x: "sint (24 * word_of_int k_MILLISECONDS_PER_HOUR :: Int64) = 1 * 86400000"
    unfolding k_MILLISECONDS_PER_HOUR_def by simp
  from adder_whole_days [OF assms x] show ?thesis
    unfolding addHours_def Let_def addDays_floor [OF assms] by simp
qed

lemma addHours_240_eq_addDays_10:
  assumes "I1 dt"
  shows "addHours 240 dt = addDays 10 dt"
proof -
  have x: "sint (240 * word_of_int k_MILLISECONDS_PER_HOUR :: Int64) = 10 * 86400000"
    unfolding k_MILLISECONDS_PER_HOUR_def by simp
  from adder_whole_days [OF assms x] show ?thesis
    unfolding addHours_def Let_def addDays_floor [OF assms] by simp
qed


subsection \<open>The decomposition of a millisecond delta\<close>

text \<open>
  C3, as stated, fails: the adders split the delta with the C++ operators
  \<^verbatim>\<open>%\<close> and \<^verbatim>\<open>/\<close>, which truncate towards zero, so a delta of -1 millisecond
  gives the remainder -1 and the day count 0, and a negative remainder is
  handed to the time part.
\<close>

theorem normMsec_negative_counterexample:
  "sint (normMsec (- 1)) = - 1 \<and> sint (wholeDays (- 1)) = 0
   \<and> \<not> (0 \<le> sint (normMsec (- 1)) \<and> sint (normMsec (- 1)) < k_MILLISECONDS_PER_DAY)"
  by (simp add: normMsec_def wholeDays_def i64_rem_def i64_div_def static_cast_int_def
      k_MILLISECONDS_PER_DAY_def signed_modulo_int_def signed_divide_int_def)

lemma sint_of_int_32_narrow: "sint (word_of_int k :: int32) = signed_take_bit 31 k"
  by (simp add: sint_sbintrunc')

text \<open>
  C3, amended: for every signed 64-bit delta the remainder handed to the time
  part is the truncating remainder; it lies strictly between minus and plus
  the milliseconds of a day and has the sign of the delta. The day count is the
  truncated quotient narrowed to 32 bits; when the quotient fits in 32 bits the
  day count is the quotient, and day count times a day plus remainder is the
  delta. The time part absorbs a negative remainder: the time that results is
  the floor-style remainder of time plus delta, in \<open>[0, msPerDay)\<close>. The day
  count plus the carry is the floor quotient of time plus delta narrowed to 32
  bits, and is that quotient when it fits in 32 bits.
\<close>

theorem decomposition_truncates:
  "sint (normMsec totalMsec) = sint totalMsec smod k_MILLISECONDS_PER_DAY
   \<and> - k_MILLISECONDS_PER_DAY < sint (normMsec totalMsec)
   \<and> sint (normMsec totalMsec) < k_MILLISECONDS_PER_DAY
   \<and> (0 \<le> sint totalMsec \<longrightarrow> 0 \<le> sint (normMsec totalMsec))
   \<and> (sint totalMsec \<le> 0 \<longrightarrow> sint (normMsec totalMsec) \<le> 0)
   \<and> sint (wholeDays totalMsec)
        = signed_take_bit 31 (sint totalMsec sdiv k_MILLISECONDS_PER_DAY)
   \<and> (- 2147483648 \<le> sint totalMsec sdiv k_MILLISECONDS_PER_DAY
        \<and> sint totalMsec sdiv k_MILLISECONDS_PER_DAY < 2147483648
      \<longrightarrow> sint (wholeDays totalMsec) = sint totalMsec sdiv k_MILLISECONDS_PER_DAY
          \<and> sint (wholeDays totalMsec) * k_MILLISECONDS_PER_DAY + sint (normMsec totalMsec)
              = sint totalMsec)
   \<and> snd (Time_addMilliseconds (normMsec totalMsec) t)
        = Msec ((Time_norm t + sint totalMsec) mod k_MILLISECONDS_PER_DAY)
   \<and> 0 \<le> (Time_norm t + sint totalMsec) mod k_MILLISECONDS_PER_DAY
   \<and> (Time_norm t + sint totalMsec) mod k_MILLISECONDS_PER_DAY < k_MILLISECONDS_PER_DAY
   \<and> sint (wholeDays totalMsec + fst (Time_addMilliseconds (normMsec totalMsec) t))
        = signed_take_bit 31 ((Time_norm t + sint totalMsec) div k_MILLISECONDS_PER_DAY)
   \<and> (- 2147483648 \<le> (Time_norm t + sint totalMsec) div k_MILLISECONDS_PER_DAY
        \<and> (Time_norm t + sint totalMsec) div k_MILLISECONDS_PER_DAY < 2147483648
      \<longrightarrow> sint (wholeDays totalMsec + fst (Time_addMilliseconds (normMsec totalMsec) t))
            = (Time_norm t + sint totalMsec) div k_MILLISECONDS_PER_DAY)"
proof -
  define a where "a = sint totalMsec"
  define q where "q = a sdiv 86400000"
  define r where "r = a smod 86400000"
  define k where "k = (Time_norm t + a) div 86400000"
  define m where "m = (Time_norm t + a) mod 86400000"
  have n: "sint (normMsec totalMsec) = r" unfolding r_def a_def by (rule sint_normMsec)
  have rb: "- 86400000 < r" "r < 86400000" "0 \<le> a \<Longrightarrow> 0 \<le> r" "a \<le> 0 \<Longrightarrow> r \<le> 0"
    unfolding r_def using smod_day_bounds [of a] by blast+
  have w: "sint (wholeDays totalMsec) = signed_take_bit 31 q"
    unfolding wholeDays_eq q_def a_def by (rule sint_of_int_32_narrow)
  have wf: "sint (wholeDays totalMsec) = q" if "- 2147483648 \<le> q" "q < 2147483648"
    unfolding wholeDays_eq q_def [unfolded a_def, symmetric] using that by (rule sint_of_int_32)
  have qr: "q * 86400000 + r = a" unfolding q_def r_def by (rule sdiv_mult_smod_eq)
  have tm: "snd (Time_addMilliseconds (normMsec totalMsec) t) = Msec m"
    unfolding m_def a_def by (rule adder_time)
  have mb: "0 \<le> m" "m < 86400000" unfolding m_def by simp_all
  have c: "sint (wholeDays totalMsec + fst (Time_addMilliseconds (normMsec totalMsec) t))
      = signed_take_bit 31 k"
    unfolding adder_days_word k_def a_def by (rule sint_of_int_32_narrow)
  have cf: "sint (wholeDays totalMsec + fst (Time_addMilliseconds (normMsec totalMsec) t)) = k"
    if "- 2147483648 \<le> k" "k < 2147483648"
    unfolding adder_days_word k_def [unfolded a_def, symmetric] using that
    by (rule sint_of_int_32)
  from n rb w wf qr tm mb c cf show ?thesis
    unfolding k_MILLISECONDS_PER_DAY_def a_def [symmetric] q_def [symmetric] r_def [symmetric]
      k_def [symmetric] m_def [symmetric]
    by simp
qed


theorem decomposition_truncates_witness:
  "sint (normMsec (- 90000000)) = - 3600000
   \<and> sint (normMsec (- 90000000)) \<le> 0
   \<and> 0 \<le> sint (normMsec 90000000)
   \<and> sint (wholeDays (- 90000000)) = - 1
   \<and> sint (wholeDays (- 90000000)) * k_MILLISECONDS_PER_DAY + sint (normMsec (- 90000000))
       = - 90000000
   \<and> snd (Time_addMilliseconds (normMsec (- 90000000)) (Msec 0)) = Msec 82800000
   \<and> sint (wholeDays (- 90000000) + fst (Time_addMilliseconds (normMsec (- 90000000)) (Msec 0)))
       = - 2
   \<and> sint (wholeDays 371085174374400000) = 0
   \<and> sint (normMsec 371085174374400000) = 0"
proof -
  have n: "sint (- 90000000 :: Int64) \<le> 0" and p: "0 \<le> sint (90000000 :: Int64)"
    by simp_all
  have v: "sint (- 90000000 :: Int64) = - 90000000"
    and b: "sint (371085174374400000 :: Int64) = 371085174374400000" by simp_all
  note e = k_MILLISECONDS_PER_DAY_def signed_modulo_int_def signed_divide_int_def
    Time_norm_def Time_default_def
  have q: "sint (- 90000000 :: Int64) sdiv k_MILLISECONDS_PER_DAY = - 1"
    and r: "sint (- 90000000 :: Int64) smod k_MILLISECONDS_PER_DAY = - 3600000"
    and k: "(Time_norm (Msec 0) + sint (- 90000000 :: Int64)) div k_MILLISECONDS_PER_DAY = - 2"
    and m: "(Time_norm (Msec 0) + sint (- 90000000 :: Int64)) mod k_MILLISECONDS_PER_DAY
            = 82800000"
    and bq: "sint (371085174374400000 :: Int64) sdiv k_MILLISECONDS_PER_DAY = 4294967296"
    and br: "sint (371085174374400000 :: Int64) smod k_MILLISECONDS_PER_DAY = 0"
    unfolding v b by (simp_all add: e)
  have fq: "- 2147483648 \<le> sint (- 90000000 :: Int64) sdiv k_MILLISECONDS_PER_DAY
        \<and> sint (- 90000000 :: Int64) sdiv k_MILLISECONDS_PER_DAY < 2147483648"
    unfolding q by simp
  have fk: "- 2147483648
          \<le> (Time_norm (Msec 0) + sint (- 90000000 :: Int64)) div k_MILLISECONDS_PER_DAY
        \<and> (Time_norm (Msec 0) + sint (- 90000000 :: Int64)) div k_MILLISECONDS_PER_DAY
          < 2147483648"
    unfolding k by simp
  note d = decomposition_truncates [of "- 90000000" "Msec 0"]
  from d have 1: "sint (normMsec (- 90000000)) = - 3600000" unfolding r by blast
  from d n have 2: "sint (normMsec (- 90000000)) \<le> 0" by blast
  from d fq have "sint (wholeDays (- 90000000))
      = sint (- 90000000 :: Int64) sdiv k_MILLISECONDS_PER_DAY"
    and "sint (wholeDays (- 90000000)) * k_MILLISECONDS_PER_DAY
            + sint (normMsec (- 90000000)) = sint (- 90000000 :: Int64)"
    by blast+
  then have 3: "sint (wholeDays (- 90000000)) = - 1"
    and 4: "sint (wholeDays (- 90000000)) * k_MILLISECONDS_PER_DAY
            + sint (normMsec (- 90000000)) = - 90000000"
    unfolding q by (simp_all only: v)
  from d have 5: "snd (Time_addMilliseconds (normMsec (- 90000000)) (Msec 0)) = Msec 82800000"
    unfolding m by blast
  from d fk have 6: "sint (wholeDays (- 90000000)
      + fst (Time_addMilliseconds (normMsec (- 90000000)) (Msec 0))) = - 2"
    unfolding k by blast
  from decomposition_truncates [of 90000000 "Msec 0"] p
  have 7: "0 \<le> sint (normMsec 90000000)" by blast
  note g = decomposition_truncates [of 371085174374400000 "Msec 0"]
  from g have "sint (wholeDays 371085174374400000) = signed_take_bit 31 (4294967296 :: int)"
    unfolding bq by blast
  also have "\<dots> = 0" by (simp add: signed_take_bit_eq_take_bit_minus take_bit_eq_mod)
  finally have 8: "sint (wholeDays 371085174374400000) = 0" .
  from g have 9: "sint (normMsec 371085174374400000) = 0" unfolding br by blast
  from 1 2 3 4 5 6 7 8 9 show ?thesis by blast
qed


subsection \<open>Subtraction and addition\<close>

text \<open>
  C4: for values \<open>a\<close> and \<open>b\<close> that satisfy the invariant, \<open>a\<close> not holding
  24:00:00.000, the difference \<open>a - b\<close> is the interval of the whole days
  between the dates plus the signed difference of the times of day, and adding
  it back to \<open>b\<close>, on either side of \<^verbatim>\<open>operator+\<close>, returns and gives \<open>a\<close>. The
  time of \<open>b\<close> may even be 24:00:00.000, which counts as 00:00:00.000.
\<close>

theorem subtraction_inverts_addition:
  assumes a: "I1 a" and b: "I1 b" and na: "d_time a \<noteq> Time_default"
  shows "Datetime_diff a b
           = Interval_add (DatetimeInterval_of (Date_diff (d_date a) (d_date b)) 0 0 0 0)
                          (Time_diff (d_time a) (d_time b))
       \<and> Interval_plus_Datetime (Datetime_diff a b) b = Some a
       \<and> Datetime_plus b (Datetime_diff a b) = Some a"
proof -
  define sa where "sa = serialDate (d_date a)"
  define sb where "sb = serialDate (d_date b)"
  define ta where "ta = Time_norm (d_time a)"
  define tb where "tb = Time_norm (d_time b)"
  define i where "i = Datetime_diff a b"
  from I1_parts_valid [OF a] have sa: "1 \<le> sa" "sa \<le> 3652059" and ta: "0 \<le> ta" "ta < 86400000"
    unfolding sa_def ta_def Date_valid_def Date_max_serial_def
    using Time_norm_range [of "d_time a"] by simp_all
  from I1_parts_valid [OF b] have sb: "1 \<le> sb" "sb \<le> 3652059" and tb: "0 \<le> tb" "tb < 86400000"
    unfolding sb_def tb_def Date_valid_def Date_max_serial_def
    using Time_norm_range [of "d_time b"] by simp_all
  have i: "totalMilliseconds i = (sa - sb) * 86400000 + (ta - tb)"
    unfolding i_def Datetime_diff_def Let_def DatetimeInterval_of_def Time_diff_def
      Interval_add_def Date_diff_def sa_def sb_def ta_def tb_def by simp
  have hi: "Interval_le i (Datetime_diff Datetime_max b)"
    unfolding Interval_le_def Datetime_diff_max i Date_max_serial_def
      sb_def [symmetric] tb_def [symmetric]
    using sa ta by (simp add: algebra_simps)
  have lo: "Interval_le (Datetime_diff Datetime_min b) i"
    unfolding Interval_le_def Datetime_diff_min i sb_def [symmetric] tb_def [symmetric]
    using sa ta by (simp add: algebra_simps)
  have "tb + totalMilliseconds i = ta + (sa - sb) * 86400000" unfolding i by simp
  moreover have "(ta + (sa - sb) * 86400000) div 86400000 = (sa - sb) + ta div 86400000"
    by (rule div_mult_self1) simp
  moreover have "(ta + (sa - sb) * 86400000) mod 86400000 = ta mod 86400000"
    by (rule mod_mult_self1)
  moreover have "ta div 86400000 = 0" "ta mod 86400000 = ta" using ta by simp_all
  ultimately have dm: "(tb + totalMilliseconds i) div 86400000 = sa - sb"
    "(tb + totalMilliseconds i) mod 86400000 = ta" by simp_all
  have s: "sint (word_of_int (sa - sb) :: int32) = sa - sb"
    using sa sb by (intro sint_of_int_32) simp_all
  have d: "Date_add (d_date b) (sa - sb) = d_date a"
    unfolding Date_add_def sa_def sb_def by simp
  have t: "Msec ta = d_time a" unfolding ta_def Time_norm_eq [OF na] by simp
  have "plus_assign i b = Some \<lparr>d_date = d_date a, d_time = d_time a\<rparr>"
    unfolding plus_assign_floor tb_def [symmetric] dm s d t using hi lo by simp
  then have "plus_assign i b = Some a" by simp
  then show ?thesis
    unfolding Interval_plus_Datetime_def Datetime_plus_def i_def Datetime_diff_def Let_def
    by simp
qed

theorem subtraction_inverts_addition_witness:
  "Datetime_diff \<lparr>d_date = SerialDate 734875, d_time = Msec 9789000\<rparr>
                 \<lparr>d_date = SerialDate 734874, d_time = Msec 74580000\<rparr> = Interval 21609000
   \<and> Datetime_plus \<lparr>d_date = SerialDate 734874, d_time = Msec 74580000\<rparr> (Interval 21609000)
       = Some \<lparr>d_date = SerialDate 734875, d_time = Msec 9789000\<rparr>
   \<and> Interval_plus_Datetime (Interval 21609000)
         \<lparr>d_date = SerialDate 734874, d_time = Msec 74580000\<rparr>
       = Some \<lparr>d_date = SerialDate 734875, d_time = Msec 9789000\<rparr>"
proof -
  let ?a = "\<lparr>d_date = SerialDate 734875, d_time = Msec 9789000\<rparr>"
  let ?b = "\<lparr>d_date = SerialDate 734874, d_time = Msec 74580000\<rparr>"
  have i: "I1 ?a" "I1 ?b"
    by (simp_all add: I1_def Time_default_def Date_valid_def Time_valid_def Date_max_serial_def)
  have n: "d_time ?a \<noteq> Time_default" by (simp add: Time_default_def)
  have d: "Datetime_diff ?a ?b = Interval 21609000"
    by (simp add: Datetime_diff_def DatetimeInterval_of_def Time_diff_def Interval_add_def
        Date_diff_def Time_norm_def Time_default_def)
  from subtraction_inverts_addition [OF i n]
  have "Interval_plus_Datetime (Datetime_diff ?a ?b) ?b = Some ?a"
    and "Datetime_plus ?b (Datetime_diff ?a ?b) = Some ?a" by blast+
  then show ?thesis unfolding d using d by blast
qed


subsection \<open>Setters on the default value\<close>

text \<open>
  C5, as stated, fails: \<^verbatim>\<open>setTime\<close> and \<^verbatim>\<open>setDatetime\<close> are setters other than
  \<^verbatim>\<open>setHour(24)\<close>, they do not normalise, and on the default value they accept
  the time 24:00:00.000 (the date is the default date) and leave the reserved
  time in place.
\<close>

theorem setTime_keeps_reserved_counterexample:
  "setTime (Time_hmsm 24 0 0 0) Datetime_default = Some Datetime_default
   \<and> setTime_fields 24 0 0 0 Datetime_default = Some Datetime_default
   \<and> setDatetime 1 1 1 24 0 0 0 Datetime_default = Some Datetime_default
   \<and> d_time Datetime_default = Time_default
   \<and> d_time Datetime_default \<noteq> s_zeroTime"
  by (simp add: setTime_def setTime_fields_def setDatetime_def isValid_def isValid_dt_def
      Time_isValid_def Date_isValidYearMonthDay_def daysInMonth_def Date_ymd_1_1_1
      Datetime_default_def Time_hmsm_def Time_default_def s_zeroTime_def)

lemma setTimeToZeroIfDefault_default:
  "setTimeToZeroIfDefault Datetime_default = \<lparr>d_date = Date_default, d_time = s_zeroTime\<rparr>"
  by (simp add: setTimeToZeroIfDefault_def Datetime_default_def s_defaultTime_def
      s_defaultDate_def)

lemma setTimeToZeroIfDefault_other:
  "dt \<noteq> Datetime_default \<Longrightarrow> setTimeToZeroIfDefault dt = dt"
  by (cases dt) (auto simp: setTimeToZeroIfDefault_def Datetime_default_def s_defaultTime_def
      s_defaultDate_def)

lemma Time_norm_default: "Time_norm Time_default = 0"
  by (simp add: Time_norm_def)

text \<open>
  C5, amended: \<^verbatim>\<open>setTimeToZeroIfDefault\<close> replaces the time by 00:00:00.000
  exactly when the value is the default one and changes nothing otherwise.
  Starting from the default value, \<^verbatim>\<open>setDate\<close>, \<^verbatim>\<open>setYearDay\<close> and
  \<^verbatim>\<open>setYearMonthDay\<close> normalise before they replace the date and yield the time
  00:00:00.000; \<^verbatim>\<open>setHour\<close> of an hour below 24, \<^verbatim>\<open>setMinute\<close>, \<^verbatim>\<open>setSecond\<close> and
  \<^verbatim>\<open>setMillisecond\<close> yield 00:00:00.000 with that one field replaced, never
  the reserved time; \<^verbatim>\<open>setTime\<close> and \<^verbatim>\<open>setDatetime\<close> store the time they are
  given, which is the reserved time exactly when the hour given is 24.
\<close>

theorem sentinel_setters:
  "setTimeToZeroIfDefault Datetime_default = \<lparr>d_date = Date_default, d_time = s_zeroTime\<rparr>
   \<and> (dt \<noteq> Datetime_default \<longrightarrow> setTimeToZeroIfDefault dt = dt)
   \<and> s_zeroTime = Time_hmsm 0 0 0 0 \<and> s_zeroTime \<noteq> Time_default
   \<and> setDate date Datetime_default = \<lparr>d_date = date, d_time = s_zeroTime\<rparr>
   \<and> (Date_isValidYearDay year dayOfYear \<longrightarrow>
        setYearDay year dayOfYear Datetime_default
          = Some \<lparr>d_date = Date_yd year dayOfYear, d_time = s_zeroTime\<rparr>)
   \<and> (Date_isValidYearMonthDay year month day \<longrightarrow>
        setYearMonthDay year month day Datetime_default
          = Some \<lparr>d_date = Date_ymd year month day, d_time = s_zeroTime\<rparr>)
   \<and> (0 \<le> hour \<and> hour < 24 \<longrightarrow>
        setHour hour Datetime_default
          = Some \<lparr>d_date = Date_default, d_time = Time_hmsm hour 0 0 0\<rparr>
        \<and> Time_hmsm hour 0 0 0 \<noteq> Time_default)
   \<and> (0 \<le> minute \<and> minute \<le> 59 \<longrightarrow>
        setMinute minute Datetime_default
          = Some \<lparr>d_date = Date_default, d_time = Time_hmsm 0 minute 0 0\<rparr>
        \<and> Time_hmsm 0 minute 0 0 \<noteq> Time_default)
   \<and> (0 \<le> second \<and> second \<le> 59 \<longrightarrow>
        setSecond second Datetime_default
          = Some \<lparr>d_date = Date_default, d_time = Time_hmsm 0 0 second 0\<rparr>
        \<and> Time_hmsm 0 0 second 0 \<noteq> Time_default)
   \<and> (0 \<le> millisecond \<and> millisecond \<le> 999 \<longrightarrow>
        setMillisecond millisecond Datetime_default
          = Some \<lparr>d_date = Date_default, d_time = Time_hmsm 0 0 0 millisecond\<rparr>
        \<and> Time_hmsm 0 0 0 millisecond \<noteq> Time_default)
   \<and> setTime time Datetime_default = Some \<lparr>d_date = Date_default, d_time = time\<rparr>
   \<and> (Time_isValid h mi s ms \<longrightarrow>
        setTime_fields h mi s ms Datetime_default
          = Some \<lparr>d_date = Date_default, d_time = Time_hmsm h mi s ms\<rparr>
        \<and> (Time_hmsm h mi s ms = Time_default \<longleftrightarrow> h = 24))
   \<and> (isValid y m d h mi s ms \<longrightarrow>
        setDatetime y m d h mi s ms Datetime_default
          = Some \<lparr>d_date = Date_ymd y m d, d_time = Time_hmsm h mi s ms\<rparr>
        \<and> (Time_hmsm h mi s ms = Time_default \<longleftrightarrow> h = 24))"
proof -
  have z: "s_zeroTime = Time_hmsm 0 0 0 0" "s_zeroTime \<noteq> Time_default"
    by (simp_all add: s_zeroTime_def Time_hmsm_def Time_default_def)
  have date: "setDate date Datetime_default = \<lparr>d_date = date, d_time = s_zeroTime\<rparr>"
    unfolding setDate_def setTimeToZeroIfDefault_default by simp
  have yd: "setYearDay year dayOfYear Datetime_default
          = Some \<lparr>d_date = Date_yd year dayOfYear, d_time = s_zeroTime\<rparr>"
    if "Date_isValidYearDay year dayOfYear"
    using that unfolding setYearDay_def setTimeToZeroIfDefault_default by simp
  have ymd: "setYearMonthDay year month day Datetime_default
          = Some \<lparr>d_date = Date_ymd year month day, d_time = s_zeroTime\<rparr>"
    if "Date_isValidYearMonthDay year month day"
    using that unfolding setYearMonthDay_def setTimeToZeroIfDefault_default by simp
  have hr: "setHour hour Datetime_default
          = Some \<lparr>d_date = Date_default, d_time = Time_hmsm hour 0 0 0\<rparr>
        \<and> Time_hmsm hour 0 0 0 \<noteq> Time_default"
    if "0 \<le> hour \<and> hour < 24"
    using that unfolding setHour_def Time_setHour_def Datetime_default_def
    by (simp add: Time_norm_default Time_hmsm_def) (simp add: Time_default_def)
  have mn: "setMinute minute Datetime_default
          = Some \<lparr>d_date = Date_default, d_time = Time_hmsm 0 minute 0 0\<rparr>
        \<and> Time_hmsm 0 minute 0 0 \<noteq> Time_default"
    if "0 \<le> minute \<and> minute \<le> 59"
    using that unfolding setMinute_def Time_setMinute_def Datetime_default_def
    by (simp add: Time_norm_default Time_hmsm_def) (simp add: Time_default_def)
  have sc: "setSecond second Datetime_default
          = Some \<lparr>d_date = Date_default, d_time = Time_hmsm 0 0 second 0\<rparr>
        \<and> Time_hmsm 0 0 second 0 \<noteq> Time_default"
    if "0 \<le> second \<and> second \<le> 59"
    using that unfolding setSecond_def Time_setSecond_def Datetime_default_def
    by (simp add: Time_norm_default Time_hmsm_def) (simp add: Time_default_def)
  have ml: "setMillisecond millisecond Datetime_default
          = Some \<lparr>d_date = Date_default, d_time = Time_hmsm 0 0 0 millisecond\<rparr>
        \<and> Time_hmsm 0 0 0 millisecond \<noteq> Time_default"
    if "0 \<le> millisecond \<and> millisecond \<le> 999"
    using that unfolding setMillisecond_def Time_setMillisecond_def Datetime_default_def
    by (simp add: Time_norm_default Time_hmsm_def) (simp add: Time_default_def)
  have tm: "setTime time Datetime_default = Some \<lparr>d_date = Date_default, d_time = time\<rparr>"
    unfolding setTime_def isValid_dt_def Datetime_default_def by simp
  have t24: "Time_hmsm h mi s ms = Time_default \<longleftrightarrow> h = 24" if "Time_isValid h mi s ms"
    using that unfolding Time_isValid_def Time_hmsm_def Time_default_def by auto
  have tf: "setTime_fields h mi s ms Datetime_default
          = Some \<lparr>d_date = Date_default, d_time = Time_hmsm h mi s ms\<rparr>"
    if "Time_isValid h mi s ms"
    using that unfolding setTime_fields_def isValid_dt_def Datetime_default_def by simp
  have v: "Time_isValid h mi s ms" if "isValid y m d h mi s ms"
    using that unfolding isValid_def Let_def by (simp split: if_splits)
  have sd: "setDatetime y m d h mi s ms Datetime_default
          = Some \<lparr>d_date = Date_ymd y m d, d_time = Time_hmsm h mi s ms\<rparr>"
    if "isValid y m d h mi s ms"
    using that unfolding setDatetime_def Datetime_default_def by simp
  from setTimeToZeroIfDefault_default setTimeToZeroIfDefault_other [of dt] z date yd ymd
    hr mn sc ml tm tf t24 sd v
  show ?thesis by blast
qed

theorem sentinel_setters_witness:
  "setYearDay 2013 6 Datetime_default
     = Some \<lparr>d_date = Date_yd 2013 6, d_time = s_zeroTime\<rparr>
   \<and> setYearMonthDay 2013 1 6 Datetime_default
     = Some \<lparr>d_date = Date_ymd 2013 1 6, d_time = s_zeroTime\<rparr>
   \<and> setHour 20 Datetime_default
     = Some \<lparr>d_date = Date_default, d_time = Time_hmsm 20 0 0 0\<rparr>
   \<and> setMinute 43 Datetime_default
     = Some \<lparr>d_date = Date_default, d_time = Time_hmsm 0 43 0 0\<rparr>
   \<and> setSecond 9 Datetime_default
     = Some \<lparr>d_date = Date_default, d_time = Time_hmsm 0 0 9 0\<rparr>
   \<and> setMillisecond 5 Datetime_default
     = Some \<lparr>d_date = Date_default, d_time = Time_hmsm 0 0 0 5\<rparr>
   \<and> setTime_fields 20 43 0 0 Datetime_default
     = Some \<lparr>d_date = Date_default, d_time = Time_hmsm 20 43 0 0\<rparr>
   \<and> setDatetime 2013 1 6 20 43 0 0 Datetime_default
     = Some \<lparr>d_date = Date_ymd 2013 1 6, d_time = Time_hmsm 20 43 0 0\<rparr>
   \<and> Time_hmsm 20 43 0 0 \<noteq> Time_default
   \<and> setTimeToZeroIfDefault (Datetime_of_date Date_default) = Datetime_of_date Date_default"
proof -
  have yd: "Date_isValidYearDay 2013 6" and ymd: "Date_isValidYearMonthDay 2013 1 6"
    and t: "Time_isValid 20 43 0 0" and v: "isValid 2013 1 6 20 43 0 0"
    by (simp_all add: Date_isValidYearDay_def Date_isValidYearMonthDay_def daysInMonth_def
        Time_isValid_def isValid_def)
  have r: "(0::int) \<le> 20 \<and> (20::int) < 24" "(0::int) \<le> 43 \<and> (43::int) \<le> 59"
    "(0::int) \<le> 9 \<and> (9::int) \<le> 59" "(0::int) \<le> 5 \<and> (5::int) \<le> 999"
    "(20::int) \<noteq> 24"
    by simp_all
  have n: "Datetime_of_date Date_default \<noteq> Datetime_default"
    by (simp add: Datetime_of_date_def Datetime_default_def Time_hmsm_def Time_default_def)
  from sentinel_setters [of "Datetime_of_date Date_default" "Date_default" 2013 6 1 6 20 43 9 5
      "Time_default" 20 43 0 0 2013 1 6] yd ymd t v r n
  show ?thesis by blast
qed

subsection \<open>The invariant under the creators, setters and arithmetic\<close>

text \<open>
  Every creator, setter and arithmetic operation whose assertions hold yields a
  value that satisfies the invariant when it starts from one that does. The
  times that the setters of \<^verbatim>\<open>Time\<close> produce come first.
\<close>

lemma Time_hmsm_valid:
  assumes "Time_isValid h m s ms"
  shows "Time_valid (Time_hmsm h m s ms)"
    and "Time_hmsm h m s ms = Time_default \<longleftrightarrow> h = 24"
  using assms unfolding Time_isValid_def Time_hmsm_def Time_valid_def Time_default_def
  by auto

lemma Time_setHour_valid:
  assumes "0 \<le> h" "h < 24"
  shows "Time_valid (Time_setHour h t)" and "Time_setHour h t \<noteq> Time_default"
proof -
  define r where "r = Time_norm t mod 3600000"
  have r: "0 \<le> r" "r < 3600000" unfolding r_def by simp_all
  have e: "Time_setHour h t = Msec (h * 3600000 + r)"
    using assms unfolding Time_setHour_def r_def by simp
  show "Time_valid (Time_setHour h t)" "Time_setHour h t \<noteq> Time_default"
    unfolding e Time_valid_def Time_default_def using r assms by simp_all
qed

lemma Time_setMinute_valid:
  assumes t: "Time_valid t" and m: "0 \<le> m" "m \<le> 59"
  shows "Time_valid (Time_setMinute m t)" and "Time_setMinute m t \<noteq> Time_default"
proof -
  define x where "x = Time_norm t"
  define q where "q = x div 60000"
  define r where "r = x mod 60000"
  define h where "h = q div 60"
  define k where "k = q mod 60"
  have x: "0 \<le> x" "x < 86400000" unfolding x_def using Time_norm_range [OF t] by simp_all
  have r: "0 \<le> r" "r < 60000" unfolding r_def by simp_all
  have xe: "x = q * 60000 + r" unfolding q_def r_def by simp
  have k: "0 \<le> k" "k < 60" unfolding k_def by simp_all
  have qe: "q = h * 60 + k" unfolding h_def k_def by simp
  have h: "0 \<le> h" "h < 24" using x r k xe qe by simp_all
  have e: "Time_setMinute m t = Msec (x - k * 60000 + m * 60000)"
    unfolding Time_setMinute_def Let_def x_def k_def q_def ..
  have "x - k * 60000 + m * 60000 = h * 3600000 + m * 60000 + r"
    unfolding xe qe by simp
  then show "Time_valid (Time_setMinute m t)" "Time_setMinute m t \<noteq> Time_default"
    unfolding e Time_valid_def Time_default_def using h r m by simp_all
qed

lemma Time_setSecond_valid:
  assumes t: "Time_valid t" and s: "0 \<le> s" "s \<le> 59"
  shows "Time_valid (Time_setSecond s t)" and "Time_setSecond s t \<noteq> Time_default"
proof -
  define x where "x = Time_norm t"
  define q where "q = x div 1000"
  define r where "r = x mod 1000"
  define h where "h = q div 60"
  define k where "k = q mod 60"
  have x: "0 \<le> x" "x < 86400000" unfolding x_def using Time_norm_range [OF t] by simp_all
  have r: "0 \<le> r" "r < 1000" unfolding r_def by simp_all
  have xe: "x = q * 1000 + r" unfolding q_def r_def by simp
  have k: "0 \<le> k" "k < 60" unfolding k_def by simp_all
  have qe: "q = h * 60 + k" unfolding h_def k_def by simp
  have h: "0 \<le> h" "h < 1440" using x r k xe qe by simp_all
  have e: "Time_setSecond s t = Msec (x - k * 1000 + s * 1000)"
    unfolding Time_setSecond_def Let_def x_def k_def q_def ..
  have "x - k * 1000 + s * 1000 = h * 60000 + s * 1000 + r"
    unfolding xe qe by simp
  then show "Time_valid (Time_setSecond s t)" "Time_setSecond s t \<noteq> Time_default"
    unfolding e Time_valid_def Time_default_def using h r s by simp_all
qed

lemma Time_setMillisecond_valid:
  assumes t: "Time_valid t" and ms: "0 \<le> ms" "ms \<le> 999"
  shows "Time_valid (Time_setMillisecond ms t)" and "Time_setMillisecond ms t \<noteq> Time_default"
proof -
  define x where "x = Time_norm t"
  define q where "q = x div 1000"
  define r where "r = x mod 1000"
  have x: "0 \<le> x" "x < 86400000" unfolding x_def using Time_norm_range [OF t] by simp_all
  have r: "0 \<le> r" "r < 1000" unfolding r_def by simp_all
  have xe: "x = q * 1000 + r" unfolding q_def r_def by simp
  have q: "0 \<le> q" "q < 86400" using x r xe by simp_all
  have e: "Time_setMillisecond ms t = Msec (x - r + ms)"
    unfolding Time_setMillisecond_def Let_def x_def r_def ..
  have "x - r + ms = q * 1000 + ms" unfolding xe by simp
  then show "Time_valid (Time_setMillisecond ms t)" "Time_setMillisecond ms t \<noteq> Time_default"
    unfolding e Time_valid_def Time_default_def using q ms by simp_all
qed

lemma I1_intro:
  "Date_valid (d_date r) \<Longrightarrow> Time_valid (d_time r) \<Longrightarrow> d_time r \<noteq> Time_default \<Longrightarrow> I1 r"
  unfolding I1_def by simp

lemma I1_default: "I1 Datetime_default"
  unfolding I1_def Datetime_default_def by simp

lemma zero_time_valid:
  "Time_valid (Time_hmsm 0 0 0 0)" "Time_hmsm 0 0 0 0 \<noteq> Time_default"
  unfolding Time_valid_def Time_hmsm_def Time_default_def by simp_all

lemma mod_day_valid:
  "Time_valid (Msec (x mod 86400000))" "Msec (x mod 86400000) \<noteq> Time_default"
proof -
  define r where "r = x mod 86400000"
  have "0 \<le> r" "r < 86400000" unfolding r_def by simp_all
  then show "Time_valid (Msec (x mod 86400000))" "Msec (x mod 86400000) \<noteq> Time_default"
    unfolding r_def [symmetric] Time_valid_def Time_default_def by simp_all
qed

lemma I1_of_date: "Date_valid date \<Longrightarrow> I1 (Datetime_of_date date)"
  unfolding Datetime_of_date_def using zero_time_valid by (intro I1_intro) simp_all

lemma I1_of_date_time:
  assumes "Date_valid date" "Time_valid time" "Datetime_of_date_time date time = Some r"
  shows "I1 r"
  using assms unfolding Datetime_of_date_time_def isValid_dt_def I1_def
  by (auto split: if_splits)

lemma isValid_parts:
  assumes "isValid y m d h mi s ms"
  shows "Date_isValidYearMonthDay y m d" and "Time_isValid h mi s ms"
    and "h = 24 \<Longrightarrow> Date_ymd y m d = Date_default"
  using assms isValid_def [of y m d h mi s ms] Date_ymd_1_1_1
  by (auto simp: Let_def split: if_splits)

lemma I1_fields:
  assumes "isValid y m d h mi s ms"
  shows "I1 \<lparr>d_date = Date_ymd y m d, d_time = Time_hmsm h mi s ms\<rparr>"
proof -
  note p = isValid_parts [OF assms]
  from ymd_valid [OF p(1)] Time_hmsm_valid [OF p(2)] p(3) show ?thesis
    unfolding I1_def by auto
qed

lemma I1_of_fields: "Datetime_of_fields y m d h mi s ms = Some r \<Longrightarrow> I1 r"
  unfolding Datetime_of_fields_def using I1_fields [of y m d h mi s ms]
  by (auto split: if_splits)

lemma I1_setDatetime: "setDatetime y m d h mi s ms dt = Some r \<Longrightarrow> I1 r"
  unfolding setDatetime_def using I1_fields [of y m d h mi s ms]
  by (cases dt) (auto split: if_splits)

lemma I1_setDatetimeIfValid:
  "I1 dt \<Longrightarrow> setDatetimeIfValid y m d h mi s ms dt = Some (rc, r) \<Longrightarrow> I1 r"
  unfolding setDatetimeIfValid_def using I1_setDatetime [of y m d h mi s ms dt]
  by (auto split: if_splits option.splits)

lemma I1_plus_assign:
  assumes inv: "I1 dt" and r: "plus_assign i dt = Some r"
  shows "I1 r" and "d_time r \<noteq> Time_default"
proof -
  from r have ok: "plus_assign i dt \<noteq> None" by simp
  note a = plus_assign_asserts [OF ok]
  define k where "k = (Time_norm (d_time dt) + totalMilliseconds i) div 86400000"
  from interval_range(1,2) [OF inv a] have s: "sint (word_of_int k :: int32) = k"
    unfolding k_def by (rule sint_of_int_32)
  from interval_range(3) [OF inv a] have d: "Date_valid (Date_add (d_date dt) k)"
    unfolding k_def .
  from r have e: "r = \<lparr>d_date = Date_add (d_date dt) k,
       d_time = Msec ((Time_norm (d_time dt) + totalMilliseconds i) mod 86400000)\<rparr>"
    unfolding plus_assign_floor k_def [symmetric] s using a by simp
  show "I1 r" "d_time r \<noteq> Time_default"
    unfolding e using d mod_day_valid by (simp_all add: I1_def)
qed

lemma minus_assign_plus_assign: "minus_assign rhs dt = plus_assign (Interval_neg rhs) dt"
  unfolding minus_assign_def plus_assign_def ..

lemma I1_minus_assign: "I1 dt \<Longrightarrow> minus_assign i dt = Some r \<Longrightarrow> I1 r"
  unfolding minus_assign_plus_assign by (rule I1_plus_assign)

lemma I1_addTime: "I1 dt \<Longrightarrow> addTime h m s ms dt = Some r \<Longrightarrow> I1 r"
  unfolding addTime_plus_assign by (rule I1_plus_assign)

lemma I1_setTimeToZeroIfDefault:
  assumes "I1 dt"
  shows "I1 (setTimeToZeroIfDefault dt)" and "d_time (setTimeToZeroIfDefault dt) \<noteq> Time_default"
    and "Time_valid (d_time (setTimeToZeroIfDefault dt))"
  using assms zero_time_valid Date_valid_default
  unfolding setTimeToZeroIfDefault_def I1_def s_defaultTime_def s_defaultDate_def s_zeroTime_def
  by auto

lemma I1_setDate: "I1 dt \<Longrightarrow> Date_valid date \<Longrightarrow> I1 (setDate date dt)"
  unfolding setDate_def using I1_setTimeToZeroIfDefault(2,3) [of dt]
  by (intro I1_intro) simp_all

lemma I1_setYearDay:
  assumes "I1 dt" "setYearDay y n dt = Some r"
  shows "I1 r"
  using assms(2) I1_setTimeToZeroIfDefault(2,3) [OF assms(1)] yd_valid [of y n]
  unfolding setYearDay_def by (auto split: if_splits intro!: I1_intro)

lemma I1_setYearMonthDay:
  assumes "I1 dt" "setYearMonthDay y m d dt = Some r"
  shows "I1 r"
  using assms(2) I1_setTimeToZeroIfDefault(2,3) [OF assms(1)] ymd_valid [of y m d]
  unfolding setYearMonthDay_def by (auto split: if_splits intro!: I1_intro)

lemma I1_setTime:
  assumes "I1 dt" "Time_valid time" "setTime time dt = Some r"
  shows "I1 r"
  using assms I1_parts_valid [OF assms(1)] unfolding setTime_def isValid_dt_def I1_def
  by (auto split: if_splits)

lemma I1_setTime_fields:
  assumes "I1 dt" "setTime_fields h mi s ms dt = Some r"
  shows "I1 r"
  using assms I1_parts_valid [OF assms(1)] Time_hmsm_valid(1) [of h mi s ms]
  unfolding setTime_fields_def isValid_dt_def I1_def
  by (auto split: if_splits)

lemma I1_setHour:
  assumes inv: "I1 dt" and r: "setHour hour dt = Some r"
  shows "I1 r"
proof (cases "hour = 24")
  case True
  with r show ?thesis unfolding setHour_def Time_setHour_def I1_def
    by (auto split: if_splits)
next
  case False
  with r have h: "0 \<le> hour" "hour < 24"
    and e: "r = dt\<lparr>d_time := Time_setHour hour (d_time dt)\<rparr>"
    unfolding setHour_def by (auto split: if_splits)
  from Time_setHour_valid [OF h, of "d_time dt"] I1_parts_valid [OF inv] show ?thesis
    unfolding e by (intro I1_intro) simp_all
qed

lemma I1_setMinute:
  assumes inv: "I1 dt" and r: "setMinute minute dt = Some r"
  shows "I1 r"
proof -
  from r have m: "0 \<le> minute" "minute \<le> 59"
    and e: "r = dt\<lparr>d_time := Time_setMinute minute (d_time dt)\<rparr>"
    unfolding setMinute_def by (auto split: if_splits)
  note p = I1_parts_valid [OF inv]
  from p Time_setMinute_valid [OF _ m, of "d_time dt"] show ?thesis
    unfolding e by (intro I1_intro) simp_all
qed

lemma I1_setSecond:
  assumes inv: "I1 dt" and r: "setSecond second dt = Some r"
  shows "I1 r"
proof -
  from r have m: "0 \<le> second" "second \<le> 59"
    and e: "r = dt\<lparr>d_time := Time_setSecond second (d_time dt)\<rparr>"
    unfolding setSecond_def by (auto split: if_splits)
  note p = I1_parts_valid [OF inv]
  from p Time_setSecond_valid [OF _ m, of "d_time dt"] show ?thesis
    unfolding e by (intro I1_intro) simp_all
qed

lemma I1_setMillisecond:
  assumes inv: "I1 dt" and r: "setMillisecond millisecond dt = Some r"
  shows "I1 r"
proof -
  from r have m: "0 \<le> millisecond" "millisecond \<le> 999"
    and e: "r = dt\<lparr>d_time := Time_setMillisecond millisecond (d_time dt)\<rparr>"
    unfolding setMillisecond_def by (auto split: if_splits)
  note p = I1_parts_valid [OF inv]
  from p Time_setMillisecond_valid [OF _ m, of "d_time dt"] show ?thesis
    unfolding e by (intro I1_intro) simp_all
qed

lemma I1_addDays:
  assumes inv: "I1 dt" and r: "addDays days dt = Some r"
  shows "I1 r"
  using r I1_setTimeToZeroIfDefault(2,3) [OF inv] unfolding addDays_floor [OF inv]
  using mod_day_valid Time_norm_range [of "d_time dt"] I1_parts_valid [OF inv]
  by (auto split: if_splits intro!: I1_intro simp: Time_valid_def Time_default_def)

lemma I1_adder:
  assumes "(let (carry, t) = Time_addMilliseconds (normMsec x) tm;
              numDays = wholeDays x + carry
          in if fst (Date_addDaysIfValid d (sint numDays)) = 0
             then Some \<lparr>d_date = Date_add d (sint numDays), d_time = t\<rparr>
             else None) = Some r"
  shows "I1 r"
  using assms [unfolded adder_floor] mod_day_valid [of "Time_norm tm + sint x"]
  unfolding Let_def by (auto split: if_splits intro!: I1_intro)

lemma I1_addHours: "addHours hours dt = Some r \<Longrightarrow> I1 r"
  unfolding addHours_def Let_def using I1_adder [unfolded Let_def] by blast

lemma I1_addMinutes: "addMinutes minutes dt = Some r \<Longrightarrow> I1 r"
  unfolding addMinutes_def Let_def using I1_adder [unfolded Let_def] by blast

lemma I1_addSeconds: "addSeconds seconds dt = Some r \<Longrightarrow> I1 r"
  unfolding addSeconds_def Let_def using I1_adder [unfolded Let_def] by blast

lemma I1_addMilliseconds: "addMilliseconds milliseconds dt = Some r \<Longrightarrow> I1 r"
  unfolding addMilliseconds_def Let_def using I1_adder [unfolded Let_def] by blast

lemma bdexStreamIn_parts_valid:
  assumes "Date_valid (d_date dt)" and "Time_valid (d_time dt)"
  shows "Date_valid (d_date (snd (bdexStreamIn stream version dt)))
       \<and> Time_valid (d_time (snd (bdexStreamIn stream version dt)))"
  using assms
  unfolding bdexStreamIn_def Date_bdexStreamIn_def Time_bdexStreamIn_def invalidate_def
  by (auto split: list.splits)

subsection \<open>The scalar adders and the interval path\<close>

lemma interval_path_value:
  assumes inv: "I1 dt"
    and hi: "Interval_le i (Datetime_diff Datetime_max dt)"
    and lo: "Interval_le (Datetime_diff Datetime_min dt) i"
  shows "\<exists>r. plus_assign i dt = Some r \<and> I1 r \<and> d_time r \<noteq> Time_default
             \<and> Datetime_diff r dt = i"
proof -
  define n where "n = Time_norm (d_time dt)"
  define a where "a = totalMilliseconds i"
  define k where "k = (n + a) div 86400000"
  define m where "m = (n + a) mod 86400000"
  define r where "r = \<lparr>d_date = Date_add (d_date dt) k, d_time = Msec m\<rparr>"
  from interval_range(1,2) [OF inv hi lo] have s: "sint (word_of_int k :: int32) = k"
    unfolding k_def n_def a_def by (rule sint_of_int_32)
  have p: "plus_assign i dt = Some r"
    unfolding plus_assign_floor n_def [symmetric] a_def [symmetric] k_def [symmetric]
      m_def [symmetric] s r_def using hi lo by simp
  have m: "0 \<le> m" "m < 86400000" unfolding m_def by simp_all
  then have nd: "Msec m \<noteq> Time_default" unfolding Time_default_def by simp
  then have tn: "Time_norm (Msec m) = m" unfolding Time_norm_def by simp
  have e: "k * 86400000 + m = n + a" unfolding k_def m_def by simp
  have "Datetime_diff r dt = Interval (k * 86400000 + (m - n))"
    unfolding Datetime_diff_def Let_def r_def DatetimeInterval_of_def Interval_add_def
      Time_diff_def Date_diff_def Date_add_def n_def [symmetric]
    by (simp add: tn)
  also have "k * 86400000 + (m - n) = a" using e by simp
  finally have d: "Datetime_diff r dt = i" unfolding a_def by simp
  from I1_plus_assign [OF inv p] p d show ?thesis by blast
qed

lemma scalar_path_value:
  assumes inv: "I1 dt" and x: "sint x = totalMilliseconds i"
    and hi: "Interval_le i (Datetime_diff Datetime_max dt)"
    and lo: "Interval_le (Datetime_diff Datetime_min dt) i"
  shows "\<exists>r. (let (carry, t) = Time_addMilliseconds (normMsec x) (d_time dt);
                  numDays = wholeDays x + carry
              in if fst (Date_addDaysIfValid (d_date dt) (sint numDays)) = 0
                 then Some \<lparr>d_date = Date_add (d_date dt) (sint numDays), d_time = t\<rparr>
                 else None) = Some r
           \<and> plus_assign i dt = Some r \<and> I1 r \<and> d_time r \<noteq> Time_default
           \<and> Datetime_diff r dt = i"
proof -
  from interval_path_value [OF inv hi lo] obtain r
    where r: "plus_assign i dt = Some r" "I1 r" "d_time r \<noteq> Time_default"
      "Datetime_diff r dt = i" by blast
  from r(1) have ok: "plus_assign i dt \<noteq> None" by simp
  from scalar_adder_eq_plus_assign [OF inv x ok] r show ?thesis by simp
qed


lemma addHours_path:
  assumes inv: "I1 dt"
    and hi: "Interval_le (DatetimeInterval_of 0 (sint hours) 0 0 0) (Datetime_diff Datetime_max dt)"
    and lo: "Interval_le (Datetime_diff Datetime_min dt) (DatetimeInterval_of 0 (sint hours) 0 0 0)"
  shows "\<exists>r. addHours hours dt = Some r \<and> addTime hours 0 0 0 dt = Some r
           \<and> plus_assign (DatetimeInterval_of 0 (sint hours) 0 0 0) dt = Some r
           \<and> I1 r \<and> d_time r \<noteq> Time_default
           \<and> Datetime_diff r dt = DatetimeInterval_of 0 (sint hours) 0 0 0"
proof -
  define i where "i = DatetimeInterval_of 0 (sint hours) 0 0 0"
  note hi' = hi [folded i_def] and lo' = lo [folded i_def]
  have e: "addTime hours 0 0 0 dt = plus_assign i dt"
    unfolding addTime_plus_assign i_def by simp
  have t: "totalMilliseconds i = sint hours * 3600000"
    unfolding i_def DatetimeInterval_of_def by simp
  have x: "sint (hours * word_of_int k_MILLISECONDS_PER_HOUR) = totalMilliseconds i"
    unfolding t k_MILLISECONDS_PER_HOUR_def
    using interval_range(4,5) [OF inv hi' lo'] unfolding t by (intro sint_mult_const) simp_all
  from scalar_path_value [OF inv x hi' lo'] show ?thesis
    unfolding addHours_def e Let_def i_def [symmetric] by blast
qed

lemma addMinutes_path:
  assumes inv: "I1 dt"
    and hi: "Interval_le (DatetimeInterval_of 0 0 (sint minutes) 0 0) (Datetime_diff Datetime_max dt)"
    and lo: "Interval_le (Datetime_diff Datetime_min dt) (DatetimeInterval_of 0 0 (sint minutes) 0 0)"
  shows "\<exists>r. addMinutes minutes dt = Some r \<and> addTime 0 minutes 0 0 dt = Some r
           \<and> plus_assign (DatetimeInterval_of 0 0 (sint minutes) 0 0) dt = Some r
           \<and> I1 r \<and> d_time r \<noteq> Time_default
           \<and> Datetime_diff r dt = DatetimeInterval_of 0 0 (sint minutes) 0 0"
proof -
  define i where "i = DatetimeInterval_of 0 0 (sint minutes) 0 0"
  note hi' = hi [folded i_def] and lo' = lo [folded i_def]
  have e: "addTime 0 minutes 0 0 dt = plus_assign i dt"
    unfolding addTime_plus_assign i_def by simp
  have t: "totalMilliseconds i = sint minutes * 60000"
    unfolding i_def DatetimeInterval_of_def by simp
  have x: "sint (minutes * word_of_int k_MILLISECONDS_PER_MINUTE) = totalMilliseconds i"
    unfolding t k_MILLISECONDS_PER_MINUTE_def
    using interval_range(4,5) [OF inv hi' lo'] unfolding t by (intro sint_mult_const) simp_all
  from scalar_path_value [OF inv x hi' lo'] show ?thesis
    unfolding addMinutes_def e Let_def i_def [symmetric] by blast
qed

lemma addSeconds_path:
  assumes inv: "I1 dt"
    and hi: "Interval_le (DatetimeInterval_of 0 0 0 (sint seconds) 0) (Datetime_diff Datetime_max dt)"
    and lo: "Interval_le (Datetime_diff Datetime_min dt) (DatetimeInterval_of 0 0 0 (sint seconds) 0)"
  shows "\<exists>r. addSeconds seconds dt = Some r \<and> addTime 0 0 seconds 0 dt = Some r
           \<and> plus_assign (DatetimeInterval_of 0 0 0 (sint seconds) 0) dt = Some r
           \<and> I1 r \<and> d_time r \<noteq> Time_default
           \<and> Datetime_diff r dt = DatetimeInterval_of 0 0 0 (sint seconds) 0"
proof -
  define i where "i = DatetimeInterval_of 0 0 0 (sint seconds) 0"
  note hi' = hi [folded i_def] and lo' = lo [folded i_def]
  have e: "addTime 0 0 seconds 0 dt = plus_assign i dt"
    unfolding addTime_plus_assign i_def by simp
  have t: "totalMilliseconds i = sint seconds * 1000"
    unfolding i_def DatetimeInterval_of_def by simp
  have x: "sint (seconds * word_of_int k_MILLISECONDS_PER_SECOND) = totalMilliseconds i"
    unfolding t k_MILLISECONDS_PER_SECOND_def
    using interval_range(4,5) [OF inv hi' lo'] unfolding t by (intro sint_mult_const) simp_all
  from scalar_path_value [OF inv x hi' lo'] show ?thesis
    unfolding addSeconds_def e Let_def i_def [symmetric] by blast
qed

lemma addMilliseconds_path:
  assumes inv: "I1 dt"
    and hi: "Interval_le (DatetimeInterval_of 0 0 0 0 (sint milliseconds)) (Datetime_diff Datetime_max dt)"
    and lo: "Interval_le (Datetime_diff Datetime_min dt) (DatetimeInterval_of 0 0 0 0 (sint milliseconds))"
  shows "\<exists>r. addMilliseconds milliseconds dt = Some r \<and> addTime 0 0 0 milliseconds dt = Some r
           \<and> plus_assign (DatetimeInterval_of 0 0 0 0 (sint milliseconds)) dt = Some r
           \<and> I1 r \<and> d_time r \<noteq> Time_default
           \<and> Datetime_diff r dt = DatetimeInterval_of 0 0 0 0 (sint milliseconds)"
proof -
  define i where "i = DatetimeInterval_of 0 0 0 0 (sint milliseconds)"
  note hi' = hi [folded i_def] and lo' = lo [folded i_def]
  have e: "addTime 0 0 0 milliseconds dt = plus_assign i dt"
    unfolding addTime_plus_assign i_def by simp
  have x: "sint milliseconds = totalMilliseconds i"
    unfolding i_def DatetimeInterval_of_def by simp
  from scalar_path_value [OF inv x hi' lo'] show ?thesis
    unfolding addMilliseconds_def e Let_def i_def [symmetric] by blast
qed

lemma addDays_value:
  assumes inv: "I1 dt" and v: "Date_valid (Date_add (d_date dt) (sint days))"
  shows "\<exists>r. addDays days dt = Some r \<and> I1 r
           \<and> d_date r = Date_add (d_date dt) (sint days)
           \<and> d_time r = Msec (Time_norm (d_time dt))"
proof -
  define r where "r = \<lparr>d_date = Date_add (d_date dt) (sint days),
                       d_time = Msec (Time_norm (d_time dt))\<rparr>"
  have a: "addDays days dt = Some r" unfolding addDays_floor [OF inv] r_def using v by simp
  from I1_addDays [OF inv a] a show ?thesis unfolding r_def by auto
qed

text \<open>
  C2: for every value that satisfies the invariant (the default value too) and
  every amount whose interval lies between the differences of
  0001/01/01_00:00:00.000 and of 9999/12/31_23:59:59.999 from the value, so that
  the sum stays in range, each of \<^verbatim>\<open>addHours\<close>, \<^verbatim>\<open>addMinutes\<close>, \<^verbatim>\<open>addSeconds\<close>
  and \<^verbatim>\<open>addMilliseconds\<close> returns, and so do \<^verbatim>\<open>addTime\<close> and \<^verbatim>\<open>operator+=\<close> with
  the equivalent interval, all three with the same value: one that satisfies
  the invariant, does not hold 24:00:00.000 and differs from the starting value
  by exactly that interval. Adding 24 hours is adding 1 day and adding 240
  hours is adding 10 days: when the later date is in range both return the
  value with that date and the time of day unchanged (00:00:00.000 for the
  default value).
\<close>

theorem scalar_adders_refine_interval_path:
  assumes "I1 dt"
  shows "(Interval_le (DatetimeInterval_of 0 (sint hours) 0 0 0) (Datetime_diff Datetime_max dt)
          \<and> Interval_le (Datetime_diff Datetime_min dt) (DatetimeInterval_of 0 (sint hours) 0 0 0)
          \<longrightarrow> (\<exists>r. addHours hours dt = Some r \<and> addTime hours 0 0 0 dt = Some r
                 \<and> plus_assign (DatetimeInterval_of 0 (sint hours) 0 0 0) dt = Some r
                 \<and> I1 r \<and> d_time r \<noteq> Time_default
                 \<and> Datetime_diff r dt = DatetimeInterval_of 0 (sint hours) 0 0 0))
       \<and> (Interval_le (DatetimeInterval_of 0 0 (sint minutes) 0 0) (Datetime_diff Datetime_max dt)
          \<and> Interval_le (Datetime_diff Datetime_min dt) (DatetimeInterval_of 0 0 (sint minutes) 0 0)
          \<longrightarrow> (\<exists>r. addMinutes minutes dt = Some r \<and> addTime 0 minutes 0 0 dt = Some r
                 \<and> plus_assign (DatetimeInterval_of 0 0 (sint minutes) 0 0) dt = Some r
                 \<and> I1 r \<and> d_time r \<noteq> Time_default
                 \<and> Datetime_diff r dt = DatetimeInterval_of 0 0 (sint minutes) 0 0))
       \<and> (Interval_le (DatetimeInterval_of 0 0 0 (sint seconds) 0) (Datetime_diff Datetime_max dt)
          \<and> Interval_le (Datetime_diff Datetime_min dt) (DatetimeInterval_of 0 0 0 (sint seconds) 0)
          \<longrightarrow> (\<exists>r. addSeconds seconds dt = Some r \<and> addTime 0 0 seconds 0 dt = Some r
                 \<and> plus_assign (DatetimeInterval_of 0 0 0 (sint seconds) 0) dt = Some r
                 \<and> I1 r \<and> d_time r \<noteq> Time_default
                 \<and> Datetime_diff r dt = DatetimeInterval_of 0 0 0 (sint seconds) 0))
       \<and> (Interval_le (DatetimeInterval_of 0 0 0 0 (sint milliseconds))
                       (Datetime_diff Datetime_max dt)
          \<and> Interval_le (Datetime_diff Datetime_min dt)
                         (DatetimeInterval_of 0 0 0 0 (sint milliseconds))
          \<longrightarrow> (\<exists>r. addMilliseconds milliseconds dt = Some r
                 \<and> addTime 0 0 0 milliseconds dt = Some r
                 \<and> plus_assign (DatetimeInterval_of 0 0 0 0 (sint milliseconds)) dt = Some r
                 \<and> I1 r \<and> d_time r \<noteq> Time_default
                 \<and> Datetime_diff r dt = DatetimeInterval_of 0 0 0 0 (sint milliseconds)))
       \<and> addHours 24 dt = addDays 1 dt
       \<and> (Date_valid (Date_add (d_date dt) 1)
          \<longrightarrow> (\<exists>r. addHours 24 dt = Some r \<and> addDays 1 dt = Some r \<and> I1 r
                 \<and> d_date r = Date_add (d_date dt) 1
                 \<and> d_time r = Msec (Time_norm (d_time dt))))
       \<and> addHours 240 dt = addDays 10 dt
       \<and> (Date_valid (Date_add (d_date dt) 10)
          \<longrightarrow> (\<exists>r. addHours 240 dt = Some r \<and> addDays 10 dt = Some r \<and> I1 r
                 \<and> d_date r = Date_add (d_date dt) 10
                 \<and> d_time r = Msec (Time_norm (d_time dt))))"
proof -
  note h = addHours_path [OF assms, of hours]
  note m = addMinutes_path [OF assms, of minutes]
  note s = addSeconds_path [OF assms, of seconds]
  note ms = addMilliseconds_path [OF assms, of milliseconds]
  note e1 = addHours_24_eq_addDays_1 [OF assms]
  note e10 = addHours_240_eq_addDays_10 [OF assms]
  have d1: "\<exists>r. addHours 24 dt = Some r \<and> addDays 1 dt = Some r \<and> I1 r
                 \<and> d_date r = Date_add (d_date dt) 1
                 \<and> d_time r = Msec (Time_norm (d_time dt))"
    if "Date_valid (Date_add (d_date dt) 1)"
    using addDays_value [OF assms, of 1] that unfolding e1 by simp
  have d10: "\<exists>r. addHours 240 dt = Some r \<and> addDays 10 dt = Some r \<and> I1 r
                 \<and> d_date r = Date_add (d_date dt) 10
                 \<and> d_time r = Msec (Time_norm (d_time dt))"
    if "Date_valid (Date_add (d_date dt) 10)"
    using addDays_value [OF assms, of 10] that unfolding e10 by simp
  from h m s ms e1 e10 d1 d10 show ?thesis by blast
qed


theorem scalar_adders_refine_interval_path_witness:
  "addHours 6 \<lparr>d_date = SerialDate 734874, d_time = Msec 74580000\<rparr>
     = Some \<lparr>d_date = SerialDate 734875, d_time = Msec 9780000\<rparr>
   \<and> addTime 6 0 0 0 \<lparr>d_date = SerialDate 734874, d_time = Msec 74580000\<rparr>
     = Some \<lparr>d_date = SerialDate 734875, d_time = Msec 9780000\<rparr>
   \<and> plus_assign (DatetimeInterval_of 0 6 0 0 0)
         \<lparr>d_date = SerialDate 734874, d_time = Msec 74580000\<rparr>
     = Some \<lparr>d_date = SerialDate 734875, d_time = Msec 9780000\<rparr>
   \<and> addMinutes (- 1000) \<lparr>d_date = SerialDate 734874, d_time = Msec 74580000\<rparr>
     = Some \<lparr>d_date = SerialDate 734874, d_time = Msec 14580000\<rparr>
   \<and> addTime 0 (- 1000) 0 0 \<lparr>d_date = SerialDate 734874, d_time = Msec 74580000\<rparr>
     = Some \<lparr>d_date = SerialDate 734874, d_time = Msec 14580000\<rparr>
   \<and> addSeconds 9 \<lparr>d_date = SerialDate 734874, d_time = Msec 74580000\<rparr>
     = Some \<lparr>d_date = SerialDate 734874, d_time = Msec 74589000\<rparr>
   \<and> addTime 0 0 9 0 \<lparr>d_date = SerialDate 734874, d_time = Msec 74580000\<rparr>
     = Some \<lparr>d_date = SerialDate 734874, d_time = Msec 74589000\<rparr>
   \<and> addMilliseconds (- 74580001) \<lparr>d_date = SerialDate 734874, d_time = Msec 74580000\<rparr>
     = Some \<lparr>d_date = SerialDate 734873, d_time = Msec 86399999\<rparr>
   \<and> addTime 0 0 0 (- 74580001) \<lparr>d_date = SerialDate 734874, d_time = Msec 74580000\<rparr>
     = Some \<lparr>d_date = SerialDate 734873, d_time = Msec 86399999\<rparr>
   \<and> addHours 24 \<lparr>d_date = SerialDate 734874, d_time = Msec 74580000\<rparr>
     = Some \<lparr>d_date = SerialDate 734875, d_time = Msec 74580000\<rparr>
   \<and> addDays 1 \<lparr>d_date = SerialDate 734874, d_time = Msec 74580000\<rparr>
     = Some \<lparr>d_date = SerialDate 734875, d_time = Msec 74580000\<rparr>"
proof -
  let ?dt = "\<lparr>d_date = SerialDate 734874, d_time = Msec 74580000\<rparr>"
  note e = Interval_le_def Datetime_diff_max Datetime_diff_min DatetimeInterval_of_def
    Time_norm_def Time_default_def Date_max_serial_def
  have i: "I1 ?dt"
    by (simp add: I1_def Time_default_def Date_valid_def Time_valid_def Date_max_serial_def)
  have rh: "Interval_le (DatetimeInterval_of 0 (sint (6 :: Int64)) 0 0 0)
              (Datetime_diff Datetime_max ?dt)
            \<and> Interval_le (Datetime_diff Datetime_min ?dt)
                (DatetimeInterval_of 0 (sint (6 :: Int64)) 0 0 0)"
    by (simp add: e)
  have rm: "Interval_le (DatetimeInterval_of 0 0 (sint (- 1000 :: Int64)) 0 0)
              (Datetime_diff Datetime_max ?dt)
            \<and> Interval_le (Datetime_diff Datetime_min ?dt)
                (DatetimeInterval_of 0 0 (sint (- 1000 :: Int64)) 0 0)"
    by (simp add: e)
  have rs: "Interval_le (DatetimeInterval_of 0 0 0 (sint (9 :: Int64)) 0)
              (Datetime_diff Datetime_max ?dt)
            \<and> Interval_le (Datetime_diff Datetime_min ?dt)
                (DatetimeInterval_of 0 0 0 (sint (9 :: Int64)) 0)"
    by (simp add: e)
  have rms: "Interval_le (DatetimeInterval_of 0 0 0 0 (sint (- 74580001 :: Int64)))
              (Datetime_diff Datetime_max ?dt)
            \<and> Interval_le (Datetime_diff Datetime_min ?dt)
                (DatetimeInterval_of 0 0 0 0 (sint (- 74580001 :: Int64)))"
    by (simp add: e)
  have rd: "Date_valid (Date_add (d_date ?dt) 1)"
    by (simp add: Date_valid_def Date_add_def Date_max_serial_def)
  have six: "sint (6 :: Int64) = 6" by simp
  note t = scalar_adders_refine_interval_path [OF i, of 6 "- 1000" 9 "- 74580001"]
  have ch: "addHours 6 ?dt = Some \<lparr>d_date = SerialDate 734875, d_time = Msec 9780000\<rparr>"
    and cm: "addMinutes (- 1000) ?dt
               = Some \<lparr>d_date = SerialDate 734874, d_time = Msec 14580000\<rparr>"
    and cs: "addSeconds 9 ?dt = Some \<lparr>d_date = SerialDate 734874, d_time = Msec 74589000\<rparr>"
    and cms: "addMilliseconds (- 74580001) ?dt
               = Some \<lparr>d_date = SerialDate 734873, d_time = Msec 86399999\<rparr>"
    and cd: "addHours 24 ?dt = Some \<lparr>d_date = SerialDate 734875, d_time = Msec 74580000\<rparr>"
    by code_simp+
  from t rh obtain r1 where "addHours 6 ?dt = Some r1" "addTime 6 0 0 0 ?dt = Some r1"
    "plus_assign (DatetimeInterval_of 0 (sint (6 :: Int64)) 0 0 0) ?dt = Some r1" by blast
  with ch have 1: "addTime 6 0 0 0 ?dt
      = Some \<lparr>d_date = SerialDate 734875, d_time = Msec 9780000\<rparr>"
    "plus_assign (DatetimeInterval_of 0 6 0 0 0) ?dt
      = Some \<lparr>d_date = SerialDate 734875, d_time = Msec 9780000\<rparr>"
    unfolding six by simp_all
  from t rm obtain r2 where "addMinutes (- 1000) ?dt = Some r2"
    "addTime 0 (- 1000) 0 0 ?dt = Some r2" by blast
  with cm have 2: "addTime 0 (- 1000) 0 0 ?dt
      = Some \<lparr>d_date = SerialDate 734874, d_time = Msec 14580000\<rparr>" by simp
  from t rs obtain r3 where "addSeconds 9 ?dt = Some r3" "addTime 0 0 9 0 ?dt = Some r3"
    by blast
  with cs have 3: "addTime 0 0 9 0 ?dt
      = Some \<lparr>d_date = SerialDate 734874, d_time = Msec 74589000\<rparr>" by simp
  from t rms obtain r4 where "addMilliseconds (- 74580001) ?dt = Some r4"
    "addTime 0 0 0 (- 74580001) ?dt = Some r4" by blast
  with cms have 4: "addTime 0 0 0 (- 74580001) ?dt
      = Some \<lparr>d_date = SerialDate 734873, d_time = Msec 86399999\<rparr>" by simp
  from t rd obtain r5 where "addHours 24 ?dt = Some r5" "addDays 1 ?dt = Some r5" by blast
  with cd have 5: "addDays 1 ?dt
      = Some \<lparr>d_date = SerialDate 734875, d_time = Msec 74580000\<rparr>" by simp
  from ch cm cs cms cd 1 2 3 4 5 show ?thesis by blast
qed


subsection \<open>Streaming in and the invariant\<close>

text \<open>
  C1 holds of every operation above and fails in \<^verbatim>\<open>bdexStreamIn\<close>, which keeps
  each part in its own range and no more: the date and the time read from the
  stream are committed when the stream is still valid, without the check
  \<^verbatim>\<open>isValid(date, time)\<close> that the constructor and \<^verbatim>\<open>setTime\<close> assert. A valid
  stream that holds the date 0001-01-02 followed by the time 24:00:00.000 turns
  the default value, which satisfies the invariant, into
  0001/01/02_24:00:00.000, which does not.
\<close>

theorem bdexStreamIn_breaks_invariant:
  "bdexStreamIn \<lparr>items = [2, 86400000], good = True\<rparr> 1 Datetime_default
     = (\<lparr>items = [], good = True\<rparr>, \<lparr>d_date = SerialDate 2, d_time = Time_default\<rparr>)
   \<and> I1 Datetime_default
   \<and> \<not> I1 \<lparr>d_date = SerialDate 2, d_time = Time_default\<rparr>
   \<and> \<not> isValid_dt (SerialDate 2) Time_default"
  by (simp add: bdexStreamIn_def Date_bdexStreamIn_def Time_bdexStreamIn_def Date_valid_def
      Time_valid_def Date_max_serial_def I1_def Datetime_default_def Date_default_def
      Time_default_def isValid_dt_def)

end
